theory Spec2Isabelle
  imports Main
begin

section \<open>Types manager\<close>

text \<open>
  Modelled from the spec: the types manager (\<^verbatim>\<open>common/TypesMgr.h\<close> is included by every
  visitor but is not among the sources). A \<^verbatim>\<open>TypeId\<close> is an interned structural type, so
  two ids are equal exactly when the structures are; the datatype below is that structure.
  \<^verbatim>\<open>MatrixTy\<close> is the type built by \<^verbatim>\<open>createMatrixTy\<close>, which only the 2022 symbols
  pass calls.
\<close>

datatype ty =
    ErrorTy | VoidTy | IntegerTy | FloatTy | BooleanTy | CharacterTy
  | ArrayTy nat ty
  | MatrixTy nat nat ty
  | FunctionTy "ty list" ty

definition isErrorTy :: "ty \<Rightarrow> bool" where
  "isErrorTy t = (t = ErrorTy)"

definition isVoidTy :: "ty \<Rightarrow> bool" where
  "isVoidTy t = (t = VoidTy)"

definition isIntegerTy :: "ty \<Rightarrow> bool" where
  "isIntegerTy t = (t = IntegerTy)"

definition isFloatTy :: "ty \<Rightarrow> bool" where
  "isFloatTy t = (t = FloatTy)"

definition isBooleanTy :: "ty \<Rightarrow> bool" where
  "isBooleanTy t = (t = BooleanTy)"

definition isCharacterTy :: "ty \<Rightarrow> bool" where
  "isCharacterTy t = (t = CharacterTy)"

definition isNumericTy :: "ty \<Rightarrow> bool" where
  "isNumericTy t = (isIntegerTy t \<or> isFloatTy t)"

definition isPrimitiveTy :: "ty \<Rightarrow> bool" where
  "isPrimitiveTy t = (isIntegerTy t \<or> isFloatTy t \<or> isBooleanTy t \<or> isCharacterTy t)"

fun isArrayTy :: "ty \<Rightarrow> bool" where
  "isArrayTy (ArrayTy n e) = True"
| "isArrayTy t = False"

fun isFunctionTy :: "ty \<Rightarrow> bool" where
  "isFunctionTy (FunctionTy ps r) = True"
| "isFunctionTy t = False"

fun isVoidFunction :: "ty \<Rightarrow> bool" where
  "isVoidFunction (FunctionTy ps r) = isVoidTy r"
| "isVoidFunction t = False"

text \<open>
  Modelled from the spec: the accessors. Each is specified on its own shape only
  (\<^verbatim>\<open>arrayElem\<close> on arrays, \<^verbatim>\<open>funcReturn\<close> and \<^verbatim>\<open>funcParam(i)\<close> on functions with
  \<^verbatim>\<open>i\<close> below the arity); off that shape the model answers \<^verbatim>\<open>ErrorTy\<close> (size 0), and
  no theorem below depends on that answer.
\<close>

fun getArrayElemType :: "ty \<Rightarrow> ty" where
  "getArrayElemType (ArrayTy n e) = e"
| "getArrayElemType t = ErrorTy"

fun getArraySize :: "ty \<Rightarrow> nat" where
  "getArraySize (ArrayTy n e) = n"
| "getArraySize t = 0"

fun getFuncReturnType :: "ty \<Rightarrow> ty" where
  "getFuncReturnType (FunctionTy ps r) = r"
| "getFuncReturnType t = ErrorTy"

fun getNumOfParameters :: "ty \<Rightarrow> nat" where
  "getNumOfParameters (FunctionTy ps r) = length ps"
| "getNumOfParameters t = 0"

fun getParameterType :: "ty \<Rightarrow> nat \<Rightarrow> ty" where
  "getParameterType (FunctionTy ps r) i = (if i < length ps then ps ! i else ErrorTy)"
| "getParameterType t i = ErrorTy"

fun getSizeOfType :: "ty \<Rightarrow> nat" where
  "getSizeOfType (ArrayTy n e) = n * getSizeOfType e"
| "getSizeOfType t = (if isPrimitiveTy t then 1 else 0)"

text \<open>
  Modelled from the spec: \<^verbatim>\<open>copyable(dst, src)\<close> is true when \<^verbatim>\<open>dst == src\<close>, or both are
  numeric and \<^verbatim>\<open>dst\<close> is Float, or both are arrays with equal element type and equal
  size; the coercion law adds \<^verbatim>\<open>copyable(_, Error) = copyable(Error, _) = true\<close>. The
  destination is the first argument.
\<close>

definition copyableTypes :: "ty \<Rightarrow> ty \<Rightarrow> bool" where
  "copyableTypes dst src =
     (isErrorTy dst \<or> isErrorTy src
      \<or> dst = src
      \<or> (isNumericTy dst \<and> isNumericTy src \<and> isFloatTy dst)
      \<or> (isArrayTy dst \<and> isArrayTy src
           \<and> getArrayElemType dst = getArrayElemType src
           \<and> getArraySize dst = getArraySize src))"

datatype relop = R_EQUAL | R_DIFF | R_GT | R_LT | R_GTE | R_LTE

text \<open>
  Modelled from the spec: \<^verbatim>\<open>comparable(a, b, op)\<close>: for \<^verbatim>\<open>==\<close> and \<^verbatim>\<open>!=\<close>, both numeric or
  equal primitive types; for the four orderings, both numeric.
\<close>

definition comparableTypes :: "ty \<Rightarrow> ty \<Rightarrow> relop \<Rightarrow> bool" where
  "comparableTypes a b op =
     (if op = R_EQUAL \<or> op = R_DIFF
      then (isNumericTy a \<and> isNumericTy b) \<or> (a = b \<and> isPrimitiveTy a)
      else isNumericTy a \<and> isNumericTy b)"

section \<open>Symbol table\<close>

text \<open>
  Modelled from the spec: the symbol table (\<^verbatim>\<open>common/SymTable.h\<close> is not among the
  sources). Every scope ever created is kept and named by a stable id, its index in
  \<open>scopes\<close>; \<open>stack\<close> holds the ids of the open scopes, innermost first. A name maps,
  within its scope, to a class and a type; lookup walks the stack outward.
\<close>

datatype symclass = LocalVarClass | ParameterClass | FunctionClass

type_synonym symbol = "string \<times> symclass \<times> ty"

record scope =
  scopeName :: string
  symbols :: "symbol list"

record SymTable =
  scopes :: "scope list"
  stack :: "nat list"

definition pushNewScope :: "string \<Rightarrow> SymTable \<Rightarrow> nat \<times> SymTable" where
  "pushNewScope name S =
     (length (scopes S),
      S\<lparr>scopes := scopes S @ [\<lparr>scopeName = name, symbols = []\<rparr>],
        stack := length (scopes S) # stack S\<rparr>)"

definition pushThisScope :: "nat \<Rightarrow> SymTable \<Rightarrow> SymTable" where
  "pushThisScope sc S = S\<lparr>stack := sc # stack S\<rparr>"

definition popScope :: "SymTable \<Rightarrow> SymTable" where
  "popScope S = S\<lparr>stack := tl (stack S)\<rparr>"

definition addSymbol :: "string \<Rightarrow> symclass \<Rightarrow> ty \<Rightarrow> SymTable \<Rightarrow> SymTable" where
  "addSymbol x k t S =
     (case stack S of
        [] \<Rightarrow> S
      | sc # rest \<Rightarrow>
          S\<lparr>scopes := (scopes S)
               [sc := (scopes S ! sc)\<lparr>symbols := symbols (scopes S ! sc) @ [(x, k, t)]\<rparr>]\<rparr>)"

definition addLocalVar :: "string \<Rightarrow> ty \<Rightarrow> SymTable \<Rightarrow> SymTable" where
  "addLocalVar x t S = addSymbol x LocalVarClass t S"

definition addParameter :: "string \<Rightarrow> ty \<Rightarrow> SymTable \<Rightarrow> SymTable" where
  "addParameter x t S = addSymbol x ParameterClass t S"

definition addFunction :: "string \<Rightarrow> ty \<Rightarrow> SymTable \<Rightarrow> SymTable" where
  "addFunction x t S = addSymbol x FunctionClass t S"

definition findInCurrentScope :: "string \<Rightarrow> SymTable \<Rightarrow> bool" where
  "findInCurrentScope x S =
     (case stack S of
        [] \<Rightarrow> False
      | sc # rest \<Rightarrow> sc < length (scopes S) \<and> x \<in> set (map fst (symbols (scopes S ! sc))))"

fun lookupStack :: "scope list \<Rightarrow> nat list \<Rightarrow> string \<Rightarrow> (nat \<times> symclass \<times> ty) option" where
  "lookupStack scs [] x = None"
| "lookupStack scs (sc # rest) x =
     (if sc < length scs
      then (case map_of (symbols (scs ! sc)) x of
              Some (k, t) \<Rightarrow> Some (sc, k, t)
            | None \<Rightarrow> lookupStack scs rest x)
      else lookupStack scs rest x)"

definition findInStack :: "string \<Rightarrow> SymTable \<Rightarrow> int" where
  "findInStack x S =
     (case lookupStack (scopes S) (stack S) x of
        None \<Rightarrow> - 1
      | Some (sc, k, t) \<Rightarrow> int sc)"

text \<open>\<open>getType\<close> is only called on names that \<open>findInStack\<close> has found.\<close>

definition getType :: "string \<Rightarrow> SymTable \<Rightarrow> ty" where
  "getType x S =
     (case lookupStack (scopes S) (stack S) x of
        None \<Rightarrow> ErrorTy
      | Some (sc, k, t) \<Rightarrow> t)"

definition symbolClass :: "string \<Rightarrow> SymTable \<Rightarrow> symclass option" where
  "symbolClass x S =
     (case lookupStack (scopes S) (stack S) x of
        None \<Rightarrow> None
      | Some (sc, k, t) \<Rightarrow> Some k)"

definition isFunctionClass :: "string \<Rightarrow> SymTable \<Rightarrow> bool" where
  "isFunctionClass x S = (symbolClass x S = Some FunctionClass)"

definition isParameterClass :: "string \<Rightarrow> SymTable \<Rightarrow> bool" where
  "isParameterClass x S = (symbolClass x S = Some ParameterClass)"

definition isLocalVarClass :: "string \<Rightarrow> SymTable \<Rightarrow> bool" where
  "isLocalVarClass x S = (symbolClass x S = Some LocalVarClass)"

text \<open>
  Modelled from the spec: \<^verbatim>\<open>noMainProperlyDeclared\<close> holds when no global symbol named
  \<^verbatim>\<open>main\<close> exists with function type \<^verbatim>\<open>() \<rightarrow> void\<close>; the global scope is the outermost
  open one.
\<close>

definition noMainProperlyDeclared :: "SymTable \<Rightarrow> bool" where
  "noMainProperlyDeclared S =
     (case stack S of
        [] \<Rightarrow> True
      | sc # rest \<Rightarrow>
          lookupStack (scopes S) [last (stack S)] ''main''
            \<noteq> Some (last (stack S), FunctionClass, FunctionTy [] VoidTy))"

section \<open>Syntax tree\<close>

text \<open>
  The parser's tree (the generated \<^verbatim>\<open>AslParser\<close> contexts are not among the sources), read
  off the accessors the visitors call: \<^verbatim>\<open>ctx->expr(0)\<close>, \<^verbatim>\<open>ctx->ident()\<close>,
  \<^verbatim>\<open>ctx->statements(1)\<close>, \<^verbatim>\<open>ctx->ELSE()\<close> and so on. Every context carries its
  identity (\<open>nodeId\<close>), the key of the decoration table and the location of an error; a
  token of a context (\<^verbatim>\<open>ctx->op\<close>, \<^verbatim>\<open>ctx->ID()\<close>, \<^verbatim>\<open>ctx->RETURN()\<close>) is located by
  that context. The tree shapes are those of the interface contract; the exam-only
  nodes (map, power, factorial, sum, filter) are left out.
\<close>

type_synonym nodeId = nat

datatype valkind = INTVAL | FLOATVAL | BOOLVAL | CHARVAL

datatype unop = U_NOT | U_PLUS | U_MINUS

datatype arop = A_MUL | A_DIV | A_MOD | A_PLUS | A_MINUS

datatype logop = L_AND | L_OR

datatype ident = Ident nodeId string

datatype expr =
    Parenthesis nodeId expr
  | ExprFunc nodeId function_call
  | Unary nodeId unop expr
  | Arithmetic nodeId arop expr expr
  | Relational nodeId relop expr expr
  | Logical nodeId logop expr expr
  | ArrayAccess nodeId ident expr
  | Value nodeId valkind string
  | ExprIdent nodeId ident
and function_call =
    Function_call nodeId ident "expr list"

datatype left_expr = Left_expr nodeId ident "expr option"

datatype statement =
    AssignStmt nodeId left_expr expr
  | IfStmt nodeId expr "statement list" "statement list option"
  | WhileStmt nodeId expr "statement list"
  | ProcCall nodeId function_call
  | ReadStmt nodeId left_expr
  | WriteExpr nodeId expr
  | WriteString nodeId string
  | ReturnStmt nodeId "expr option"

datatype basic = B_INT | B_FLOAT | B_BOOL | B_CHAR

datatype basic_type = Basic_type nodeId basic

datatype type_node =
    TypeBasic nodeId basic_type
  | TypeArray nodeId nat basic_type
  | TypeMatrix nodeId nat nat basic_type

datatype parameter = Parameter nodeId string type_node

datatype variable_decl = Variable_decl nodeId type_node "string list"

datatype function_node =
  Function nodeId string "parameter list" "basic_type option" "variable_decl list" "statement list"

datatype program = Program nodeId "function_node list"

fun ident_id :: "ident \<Rightarrow> nodeId" where
  "ident_id (Ident n x) = n"

fun ident_text :: "ident \<Rightarrow> string" where
  "ident_text (Ident n x) = x"

fun expr_id :: "expr \<Rightarrow> nodeId" where
  "expr_id (Parenthesis n e) = n"
| "expr_id (ExprFunc n f) = n"
| "expr_id (Unary n op e) = n"
| "expr_id (Arithmetic n op e1 e2) = n"
| "expr_id (Relational n op e1 e2) = n"
| "expr_id (Logical n op e1 e2) = n"
| "expr_id (ArrayAccess n a e) = n"
| "expr_id (Value n k s) = n"
| "expr_id (ExprIdent n a) = n"

fun call_id :: "function_call \<Rightarrow> nodeId" where
  "call_id (Function_call n f args) = n"

fun left_expr_id :: "left_expr \<Rightarrow> nodeId" where
  "left_expr_id (Left_expr n a i) = n"

fun basic_type_id :: "basic_type \<Rightarrow> nodeId" where
  "basic_type_id (Basic_type n b) = n"

fun type_id :: "type_node \<Rightarrow> nodeId" where
  "type_id (TypeBasic n b) = n"
| "type_id (TypeArray n k b) = n"
| "type_id (TypeMatrix n r c b) = n"

fun parameter_id :: "parameter \<Rightarrow> nodeId" where
  "parameter_id (Parameter n x t) = n"


fun parameter_type :: "parameter \<Rightarrow> type_node" where
  "parameter_type (Parameter n x t) = t"

section \<open>Tree decoration and error sink\<close>

text \<open>
  Modelled from the spec: the decoration table (\<^verbatim>\<open>common/TreeDecoration.h\<close>) maps a node
  to its scope, type and l-value flag. It is read as a total table: \<open>typeOf D n\<close> is what
  \<^verbatim>\<open>getType\<close> answers for node \<open>n\<close>, whether or not a pass has written it, so a theorem
  holds whatever the table answers for an undecorated node.

  Modelled from the spec: the error sink (\<^verbatim>\<open>common/SemErrors.h\<close>) collects the errors in
  insertion order. The log below records every call a visitor makes to the sink, with
  the kind of the error and the context it is located at.
\<close>

record TreeDecoration =
  scopeOf :: "nodeId \<Rightarrow> nat"
  typeOf :: "nodeId \<Rightarrow> ty"
  isLValueOf :: "nodeId \<Rightarrow> bool"

datatype errkind =
    DeclaredIdent | UndeclaredIdent | IncompatibleAssignment | IncompatibleReturn
  | BooleanRequired | ReadWriteRequireBasic | NonReferenceableLeftExpr
  | NonReferenceableExpression | IsNotCallable | IsNotFunction | NumberOfParameters
  | IncompatibleParameter nat | IncompatibleOperator | NonArrayInArrayAccess
  | NonIntegerIndexInArrayAccess | NoMainProperlyDeclared

type_synonym semerror = "errkind \<times> nodeId"

record pass_state =
  Decorations :: TreeDecoration
  Errors :: "semerror list"

definition getScopeDecor :: "'a pass_state_scheme \<Rightarrow> nodeId \<Rightarrow> nat" where
  "getScopeDecor st n = scopeOf (Decorations st) n"

definition getTypeDecor :: "'a pass_state_scheme \<Rightarrow> nodeId \<Rightarrow> ty" where
  "getTypeDecor st n = typeOf (Decorations st) n"

definition getIsLValueDecor :: "'a pass_state_scheme \<Rightarrow> nodeId \<Rightarrow> bool" where
  "getIsLValueDecor st n = isLValueOf (Decorations st) n"

definition putScopeDecor :: "nodeId \<Rightarrow> nat \<Rightarrow> 'a pass_state_scheme \<Rightarrow> 'a pass_state_scheme" where
  "putScopeDecor n sc st =
     st\<lparr>Decorations := (Decorations st)\<lparr>scopeOf := (scopeOf (Decorations st))(n := sc)\<rparr>\<rparr>"

definition putTypeDecor :: "nodeId \<Rightarrow> ty \<Rightarrow> 'a pass_state_scheme \<Rightarrow> 'a pass_state_scheme" where
  "putTypeDecor n t st =
     st\<lparr>Decorations := (Decorations st)\<lparr>typeOf := (typeOf (Decorations st))(n := t)\<rparr>\<rparr>"

definition putIsLValueDecor :: "nodeId \<Rightarrow> bool \<Rightarrow> 'a pass_state_scheme \<Rightarrow> 'a pass_state_scheme" where
  "putIsLValueDecor n b st =
     st\<lparr>Decorations := (Decorations st)\<lparr>isLValueOf := (isLValueOf (Decorations st))(n := b)\<rparr>\<rparr>"

definition emit :: "errkind \<Rightarrow> nodeId \<Rightarrow> 'a pass_state_scheme \<Rightarrow> 'a pass_state_scheme" where
  "emit k n st = st\<lparr>Errors := Errors st @ [(k, n)]\<rparr>"

text \<open>The errors a visit has sent to the sink: what the log has gained from \<open>st\<close> to \<open>st'\<close>.\<close>

definition emitted :: "'a pass_state_scheme \<Rightarrow> 'b pass_state_scheme \<Rightarrow> semerror list" where
  "emitted st st' = drop (length (Errors st)) (Errors st')"

section \<open>Symbols pass\<close>

text \<open>
  \<^verbatim>\<open>examen-2022/asl/SymbolsVisitor.cpp\<close>. The pass owns the symbol table, the decorations
  and the error sink. The name of the global scope (\<^verbatim>\<open>SymTable::GLOBAL_SCOPE_NAME\<close>) is a
  constant of the absent symbol table and is a parameter of \<open>sym_visitProgram\<close>.

  The tree carries the number an \<^verbatim>\<open>INTVAL\<close> token writes (digits only). \<^verbatim>\<open>visitType\<close>
  converts it with \<^verbatim>\<open>std::stoi\<close>, which throws \<^verbatim>\<open>std::out_of_range\<close> when the number does
  not fit an \<^verbatim>\<open>int\<close> (32 bits: from \<open>2 ^ 31\<close> on). No visitor catches it, so the exception
  leaves every visit that is under way: a visit answers \<open>Inl\<close> the exception or \<open>Inr\<close> the
  state it returns with.
\<close>

record sym_state = pass_state +
  Symbols :: SymTable

datatype exception = Out_of_range

definition stoi :: "nat \<Rightarrow> exception + nat" where
  "stoi k = (if k < 2 ^ 31 then Inr k else Inl Out_of_range)"

definition createBasicTy :: "basic \<Rightarrow> ty" where
  "createBasicTy b = (case b of B_INT \<Rightarrow> IntegerTy | B_FLOAT \<Rightarrow> FloatTy
                      | B_BOOL \<Rightarrow> BooleanTy | B_CHAR \<Rightarrow> CharacterTy)"

fun sym_visitBasic_type :: "basic_type \<Rightarrow> sym_state \<Rightarrow> sym_state" where
  "sym_visitBasic_type (Basic_type n b) st = putTypeDecor n (createBasicTy b) st"

fun sym_visitType :: "type_node \<Rightarrow> sym_state \<Rightarrow> exception + sym_state" where
  "sym_visitType (TypeArray n sz b) st =
     (let st1 = sym_visitBasic_type b st;
          tElem = getTypeDecor st1 (basic_type_id b)
      in case stoi sz of
           Inl x \<Rightarrow> Inl x
         | Inr len \<Rightarrow> Inr (putTypeDecor n (ArrayTy len tElem) st1))"
| "sym_visitType (TypeMatrix n r c b) st =
     (let st1 = sym_visitBasic_type b st;
          tElem = getTypeDecor st1 (basic_type_id b)
      in case stoi r of
           Inl x \<Rightarrow> Inl x
         | Inr rows \<Rightarrow>
             (case stoi c of
                Inl x \<Rightarrow> Inl x
              | Inr cols \<Rightarrow> Inr (putTypeDecor n (MatrixTy rows cols tElem) st1)))"
| "sym_visitType (TypeBasic n b) st =
     (let st1 = sym_visitBasic_type b st;
          t = getTypeDecor st1 (basic_type_id b)
      in Inr (putTypeDecor n t st1))"

fun sym_visitParameter :: "parameter \<Rightarrow> sym_state \<Rightarrow> exception + sym_state" where
  "sym_visitParameter (Parameter n x ty) st =
     (if findInCurrentScope x (Symbols st)
      then Inr (emit DeclaredIdent n st)
      else (case sym_visitType ty st of
              Inl ex \<Rightarrow> Inl ex
            | Inr st1 \<Rightarrow>
                (let t1 = getTypeDecor st1 (type_id ty);
                     st2 = putTypeDecor n t1 st1
                 in Inr (st2\<lparr>Symbols := addParameter x t1 (Symbols st2)\<rparr>))))"

text \<open>The loop of \<^verbatim>\<open>visitVariable_decl\<close> over the declared names.\<close>

fun sym_declareIds :: "nodeId \<Rightarrow> ty \<Rightarrow> string list \<Rightarrow> sym_state \<Rightarrow> sym_state" where
  "sym_declareIds n t1 [] st = st"
| "sym_declareIds n t1 (x # xs) st =
     sym_declareIds n t1 xs
       (if findInCurrentScope x (Symbols st)
        then emit DeclaredIdent n st
        else st\<lparr>Symbols := addLocalVar x t1 (Symbols st)\<rparr>)"

fun sym_visitVariable_decl :: "variable_decl \<Rightarrow> sym_state \<Rightarrow> exception + sym_state" where
  "sym_visitVariable_decl (Variable_decl n ty ids) st =
     (case sym_visitType ty st of
        Inl ex \<Rightarrow> Inl ex
      | Inr st1 \<Rightarrow>
          (let t1 = getTypeDecor st1 (type_id ty)
           in Inr (sym_declareIds n t1 ids st1)))"

text \<open>\<^verbatim>\<open>visitDeclarations\<close>: \<^verbatim>\<open>visitChildren\<close>, one declaration after the other.\<close>

fun sym_visitDeclarations :: "variable_decl list \<Rightarrow> sym_state \<Rightarrow> exception + sym_state" where
  "sym_visitDeclarations [] st = Inr st"
| "sym_visitDeclarations (d # ds) st =
     (case sym_visitVariable_decl d st of
        Inl ex \<Rightarrow> Inl ex
      | Inr st1 \<Rightarrow> sym_visitDeclarations ds st1)"

text \<open>The loop of \<^verbatim>\<open>visitFunction\<close> over the parameters, collecting \<^verbatim>\<open>lParamsTy\<close>.\<close>

fun sym_visitParameters ::
  "parameter list \<Rightarrow> ty list \<Rightarrow> sym_state \<Rightarrow> exception + (ty list \<times> sym_state)" where
  "sym_visitParameters [] lParamsTy st = Inr (lParamsTy, st)"
| "sym_visitParameters (p # ps) lParamsTy st =
     (case sym_visitParameter p st of
        Inl ex \<Rightarrow> Inl ex
      | Inr st1 \<Rightarrow>
          (let tParam = getTypeDecor st1 (parameter_id p)
           in sym_visitParameters ps (lParamsTy @ [tParam]) st1))"

fun sym_visitFunction :: "function_node \<Rightarrow> sym_state \<Rightarrow> exception + sym_state" where
  "sym_visitFunction (Function n funcName params bt decls body) st =
     (let (sc, S1) = pushNewScope funcName (Symbols st);
          st1 = putScopeDecor n sc (st\<lparr>Symbols := S1\<rparr>)
      in case sym_visitParameters params [] st1 of
           Inl ex \<Rightarrow> Inl ex
         | Inr (lParamsTy, st2) \<Rightarrow>
             (case sym_visitDeclarations decls st2 of
                Inl ex \<Rightarrow> Inl ex
              | Inr st3 \<Rightarrow>
                  (let st4 = st3\<lparr>Symbols := popScope (Symbols st3)\<rparr>
                   in if findInCurrentScope funcName (Symbols st4)
                      then Inr (emit DeclaredIdent n st4)
                      else (let (tRet, st5) =
                                  (case bt of
                                     None \<Rightarrow> (VoidTy, st4)
                                   | Some b \<Rightarrow> (let st' = sym_visitBasic_type b st4
                                               in (getTypeDecor st' (basic_type_id b), st')));
                                tFunc = FunctionTy lParamsTy tRet;
                                st6 = putTypeDecor n tFunc st5
                            in Inr (st6\<lparr>Symbols := addFunction funcName tFunc (Symbols st6)\<rparr>)))))"

text \<open>The loop of \<^verbatim>\<open>visitProgram\<close> over the functions.\<close>

fun sym_visitFunctions :: "function_node list \<Rightarrow> sym_state \<Rightarrow> exception + sym_state" where
  "sym_visitFunctions [] st = Inr st"
| "sym_visitFunctions (f # fs) st =
     (case sym_visitFunction f st of
        Inl ex \<Rightarrow> Inl ex
      | Inr st1 \<Rightarrow> sym_visitFunctions fs st1)"

fun sym_visitProgram :: "string \<Rightarrow> program \<Rightarrow> sym_state \<Rightarrow> exception + sym_state" where
  "sym_visitProgram GLOBAL_SCOPE_NAME (Program n fs) st =
     (let (sc, S1) = pushNewScope GLOBAL_SCOPE_NAME (Symbols st);
          st1 = putScopeDecor n sc (st\<lparr>Symbols := S1\<rparr>)
      in case sym_visitFunctions fs st1 of
           Inl ex \<Rightarrow> Inl ex
         | Inr st2 \<Rightarrow> Inr (st2\<lparr>Symbols := popScope (Symbols st2)\<rparr>))"

section \<open>Type-check pass\<close>

text \<open>
  \<^verbatim>\<open>examen/asl/TypeCheckVisitor.cpp\<close>. The statement and expression visitors only query the
  symbol table (\<^verbatim>\<open>findInStack\<close>, \<^verbatim>\<open>getType\<close>, \<^verbatim>\<open>isFunctionClass\<close>), so they take it as
  an argument; they write decorations and errors. \<^verbatim>\<open>visitProgram\<close> and
  \<^verbatim>\<open>visitFunction\<close> push and pop scopes and so return the table too.
\<close>

record tc_state = pass_state +
  currFunctionType :: ty

fun tc_visitIdent :: "SymTable \<Rightarrow> ident \<Rightarrow> tc_state \<Rightarrow> tc_state" where
  "tc_visitIdent S (Ident n x) st =
     (if findInStack x S = - 1
      then putIsLValueDecor n True (putTypeDecor n ErrorTy (emit UndeclaredIdent n st))
      else (let t1 = getType x S;
                st1 = putTypeDecor n t1 st
            in if isFunctionClass x S
               then putIsLValueDecor n False st1
               else putIsLValueDecor n True st1))"

text \<open>The second loop of \<^verbatim>\<open>visitFunction_call\<close>: each argument against its formal.\<close>

fun tc_checkParameters :: "ty \<Rightarrow> expr list \<Rightarrow> nat \<Rightarrow> tc_state \<Rightarrow> tc_state" where
  "tc_checkParameters tFunc [] i st = st"
| "tc_checkParameters tFunc (e # es) i st =
     (let tExpr = getTypeDecor st (expr_id e);
          tArg = getParameterType tFunc i
      in tc_checkParameters tFunc es (Suc i)
           (if \<not> isErrorTy tExpr \<and> \<not> copyableTypes tArg tExpr
            then emit (IncompatibleParameter (Suc i)) (expr_id e) st
            else st))"

definition getTypeCoercion :: "ty \<Rightarrow> ty \<Rightarrow> ty" where
  "getTypeCoercion t1 t2 = (if isFloatTy t1 \<or> isFloatTy t2 then FloatTy else IntegerTy)"

fun tc_visitExpr :: "SymTable \<Rightarrow> expr \<Rightarrow> tc_state \<Rightarrow> tc_state"
and tc_visitFunction_call :: "SymTable \<Rightarrow> function_call \<Rightarrow> tc_state \<Rightarrow> tc_state"
and tc_visitExprs :: "SymTable \<Rightarrow> expr list \<Rightarrow> tc_state \<Rightarrow> tc_state"
where
  "tc_visitExpr S (Parenthesis n e) st =
     (let st1 = tc_visitExpr S e st;
          t1 = getTypeDecor st1 (expr_id e)
      in putIsLValueDecor n False (putTypeDecor n t1 st1))"
| "tc_visitExpr S (ExprFunc n f) st =
     (let st1 = tc_visitFunction_call S f st;
          tFunc = getTypeDecor st1 (call_id f);
          b = getIsLValueDecor st1 (call_id f)
      in if isVoidTy tFunc
         then putIsLValueDecor n False
                (putTypeDecor n ErrorTy (emit IsNotFunction (call_id f) st1))
         else putIsLValueDecor n b (putTypeDecor n tFunc st1))"
| "tc_visitExpr S (Unary n op e) st =
     (let st1 = tc_visitExpr S e st;
          t1 = getTypeDecor st1 (expr_id e)
      in if op = U_NOT
         then (let st2 = (if \<not> isErrorTy t1 \<and> \<not> isBooleanTy t1
                          then emit IncompatibleOperator n st1 else st1)
               in putIsLValueDecor n False (putTypeDecor n BooleanTy st2))
         else (let st2 = (if \<not> isErrorTy t1 \<and> \<not> isNumericTy t1
                          then emit IncompatibleOperator n st1 else st1);
                   t = (if isFloatTy t1 then FloatTy else IntegerTy)
               in putIsLValueDecor n False (putTypeDecor n t st2)))"
| "tc_visitExpr S (Arithmetic n op e1 e2) st =
     (let st1 = tc_visitExpr S e1 st;
          t1 = getTypeDecor st1 (expr_id e1);
          st2 = tc_visitExpr S e2 st1;
          t2 = getTypeDecor st2 (expr_id e2);
          (t, st3) =
            (if op = A_MOD
             then (IntegerTy,
                   if (\<not> isErrorTy t1 \<and> \<not> isIntegerTy t1) \<or> (\<not> isErrorTy t2 \<and> \<not> isIntegerTy t2)
                   then emit IncompatibleOperator n st2 else st2)
             else (getTypeCoercion t1 t2,
                   if (\<not> isErrorTy t1 \<and> \<not> isNumericTy t1) \<or> (\<not> isErrorTy t2 \<and> \<not> isNumericTy t2)
                   then emit IncompatibleOperator n st2 else st2))
      in putIsLValueDecor n False (putTypeDecor n t st3))"
| "tc_visitExpr S (Relational n op e1 e2) st =
     (let st1 = tc_visitExpr S e1 st;
          t1 = getTypeDecor st1 (expr_id e1);
          st2 = tc_visitExpr S e2 st1;
          t2 = getTypeDecor st2 (expr_id e2);
          st3 = (if \<not> isErrorTy t1 \<and> \<not> isErrorTy t2 \<and> \<not> comparableTypes t1 t2 op
                 then emit IncompatibleOperator n st2 else st2)
      in putIsLValueDecor n False (putTypeDecor n BooleanTy st3))"
| "tc_visitExpr S (Logical n op e1 e2) st =
     (let st1 = tc_visitExpr S e1 st;
          t1 = getTypeDecor st1 (expr_id e1);
          st2 = tc_visitExpr S e2 st1;
          t2 = getTypeDecor st2 (expr_id e2);
          st3 = (if (\<not> isErrorTy t1 \<and> \<not> isBooleanTy t1) \<or> (\<not> isErrorTy t2 \<and> \<not> isBooleanTy t2)
                 then emit IncompatibleOperator n st2 else st2)
      in putIsLValueDecor n False (putTypeDecor n BooleanTy st3))"
| "tc_visitExpr S (ArrayAccess n a e) st =
     (let st1 = tc_visitIdent S a st;
          t1 = getTypeDecor st1 (ident_id a);
          st2 = (if \<not> isErrorTy t1 \<and> \<not> isArrayTy t1
                 then emit NonArrayInArrayAccess n st1 else st1);
          st3 = tc_visitExpr S e st2;
          t2 = getTypeDecor st3 (expr_id e);
          st4 = (if \<not> isErrorTy t2 \<and> \<not> isIntegerTy t2
                 then emit NonIntegerIndexInArrayAccess (expr_id e) st3 else st3);
          (t3, isLValue) = (if isArrayTy t1 then (getArrayElemType t1, True) else (ErrorTy, False))
      in putIsLValueDecor n isLValue (putTypeDecor n t3 st4))"
| "tc_visitExpr S (Value n k s) st =
     putIsLValueDecor n False
       (putTypeDecor n
          (case k of INTVAL \<Rightarrow> IntegerTy | FLOATVAL \<Rightarrow> FloatTy
           | BOOLVAL \<Rightarrow> BooleanTy | CHARVAL \<Rightarrow> CharacterTy) st)"
| "tc_visitExpr S (ExprIdent n a) st =
     (let st1 = tc_visitIdent S a st;
          t1 = getTypeDecor st1 (ident_id a);
          st2 = putTypeDecor n t1 st1;
          b = getIsLValueDecor st2 (ident_id a)
      in putIsLValueDecor n b st2)"
| "tc_visitFunction_call S (Function_call n f args) st =
     (let st1 = tc_visitIdent S f st;
          tFunc = getTypeDecor st1 (ident_id f);
          st2 = (if \<not> isFunctionTy tFunc \<and> \<not> isErrorTy tFunc
                 then emit IsNotCallable (ident_id f) st1 else st1);
          numOfExpr = length args;
          st3 = tc_visitExprs S args st2;
          st4 = (if isFunctionTy tFunc \<and> \<not> isErrorTy tFunc
                 then (let tRet = getFuncReturnType tFunc;
                           st' = putTypeDecor n tRet st3;
                           numOfParams = getNumOfParameters tFunc
                       in if numOfExpr \<noteq> numOfParams
                          then emit NumberOfParameters (ident_id f) st'
                          else tc_checkParameters tFunc args 0 st')
                 else st3);
          b = getIsLValueDecor st4 (ident_id f)
      in putIsLValueDecor n b st4)"
| "tc_visitExprs S [] st = st"
| "tc_visitExprs S (e # es) st = tc_visitExprs S es (tc_visitExpr S e st)"

fun tc_visitLeft_expr :: "SymTable \<Rightarrow> left_expr \<Rightarrow> tc_state \<Rightarrow> tc_state" where
  "tc_visitLeft_expr S (Left_expr n a (Some e)) st =
     (let st1 = tc_visitIdent S a st;
          t1 = getTypeDecor st1 (ident_id a);
          st2 = (if \<not> isErrorTy t1 \<and> \<not> isArrayTy t1
                 then emit NonArrayInArrayAccess n st1 else st1);
          st3 = tc_visitExpr S e st2;
          t2 = getTypeDecor st3 (expr_id e);
          st4 = (if \<not> isErrorTy t2 \<and> \<not> isIntegerTy t2
                 then emit NonIntegerIndexInArrayAccess (expr_id e) st3 else st3);
          (t3, isLValue) = (if isArrayTy t1 then (getArrayElemType t1, True) else (ErrorTy, False))
      in putIsLValueDecor n isLValue (putTypeDecor n t3 st4))"
| "tc_visitLeft_expr S (Left_expr n a None) st =
     (let st1 = tc_visitIdent S a st;
          t1 = getTypeDecor st1 (ident_id a);
          isLValue = getIsLValueDecor st1 (ident_id a)
      in putIsLValueDecor n isLValue (putTypeDecor n t1 st1))"

fun tc_visitStatement :: "SymTable \<Rightarrow> statement \<Rightarrow> tc_state \<Rightarrow> tc_state"
and tc_visitStatements :: "SymTable \<Rightarrow> statement list \<Rightarrow> tc_state \<Rightarrow> tc_state"
where
  "tc_visitStatement S (AssignStmt n le e) st =
     (let st1 = tc_visitLeft_expr S le st;
          t1 = getTypeDecor st1 (left_expr_id le);
          st2 = tc_visitExpr S e st1;
          t2 = getTypeDecor st2 (expr_id e);
          st3 = (if \<not> isErrorTy t1 \<and> \<not> isErrorTy t2 \<and> \<not> copyableTypes t1 t2
                 then emit IncompatibleAssignment n st2 else st2)
      in if \<not> isErrorTy t1 \<and> \<not> getIsLValueDecor st3 (left_expr_id le)
         then emit NonReferenceableLeftExpr (left_expr_id le) st3 else st3)"
| "tc_visitStatement S (IfStmt n e th el) st =
     (let st1 = tc_visitExpr S e st;
          t1 = getTypeDecor st1 (expr_id e);
          st2 = (if \<not> isErrorTy t1 \<and> \<not> isBooleanTy t1
                 then emit BooleanRequired n st1 else st1);
          st3 = tc_visitStatements S th st2
      in case el of None \<Rightarrow> st3 | Some els \<Rightarrow> tc_visitStatements S els st3)"
| "tc_visitStatement S (WhileStmt n e body) st =
     (let st1 = tc_visitExpr S e st;
          t1 = getTypeDecor st1 (expr_id e);
          st2 = (if \<not> isErrorTy t1 \<and> \<not> isBooleanTy t1
                 then emit BooleanRequired n st1 else st1)
      in tc_visitStatements S body st2)"
| "tc_visitStatement S (ProcCall n f) st = tc_visitFunction_call S f st"
| "tc_visitStatement S (ReadStmt n le) st =
     (let st1 = tc_visitLeft_expr S le st;
          t1 = getTypeDecor st1 (left_expr_id le);
          st2 = (if \<not> isErrorTy t1 \<and> \<not> isPrimitiveTy t1 \<and> \<not> isFunctionTy t1
                 then emit ReadWriteRequireBasic n st1 else st1)
      in if \<not> isErrorTy t1 \<and> \<not> getIsLValueDecor st2 (left_expr_id le)
         then emit NonReferenceableExpression n st2 else st2)"
| "tc_visitStatement S (WriteExpr n e) st =
     (let st1 = tc_visitExpr S e st;
          t1 = getTypeDecor st1 (expr_id e)
      in if \<not> isErrorTy t1 \<and> \<not> isPrimitiveTy t1
         then emit ReadWriteRequireBasic n st1 else st1)"
| "tc_visitStatement S (WriteString n s) st = st"
| "tc_visitStatement S (ReturnStmt n eo) st =
     (let (t1, st1) =
            (case eo of
               None \<Rightarrow> (VoidTy, st)
             | Some e \<Rightarrow> (let st' = tc_visitExpr S e st in (getTypeDecor st' (expr_id e), st')));
          t2 = currFunctionType st1
      in if \<not> isErrorTy t2
         then (let ret = getFuncReturnType t2
               in if \<not> copyableTypes ret t1 then emit IncompatibleReturn n st1 else st1)
         else st1)"
| "tc_visitStatements S [] st = st"
| "tc_visitStatements S (s # ss) st = tc_visitStatements S ss (tc_visitStatement S s st)"

fun tc_visitFunction :: "function_node \<Rightarrow> SymTable \<times> tc_state \<Rightarrow> SymTable \<times> tc_state" where
  "tc_visitFunction (Function n funcName params bt decls body) (S, st) =
     (let sc = getScopeDecor st n;
          S1 = pushThisScope sc S;
          t1 = getTypeDecor st n;
          st1 = st\<lparr>currFunctionType := t1\<rparr>;
          st2 = tc_visitStatements S1 body st1;
          S2 = popScope S1
      in (S2, st2))"

fun tc_visitProgram :: "program \<Rightarrow> SymTable \<times> tc_state \<Rightarrow> SymTable \<times> tc_state" where
  "tc_visitProgram (Program n fs) (S, st) =
     (let sc = getScopeDecor st n;
          S1 = pushThisScope sc S;
          (S2, st2) = fold tc_visitFunction fs (S1, st);
          st3 = (if noMainProperlyDeclared S2 then emit NoMainProperlyDeclared n st2 else st2);
          S3 = popScope S2
      in (S3, st3))"

section \<open>Three-address code\<close>

text \<open>
  Modelled from the spec: the instruction schema of the TAC module (\<^verbatim>\<open>common/code.h\<close> is
  not among the sources): an instruction is a mnemonic with its operands, built by the
  factory of its name (\<^verbatim>\<open>instruction::ILOAD(d, src)\<close>). \<^verbatim>\<open>PUSH\<close> and \<^verbatim>\<open>POP\<close> take zero or
  one operand (\<open>PUSH0\<close> and \<open>POP0\<close> are the argumentless forms); an instruction list is
  a list, and the source's \<^verbatim>\<open>||\<close> appends.

  Modelled from the spec: the counters. Temporaries are named \<^verbatim>\<open>%N\<close> and labels
  \<^verbatim>\<open>kindN\<close>; \<^verbatim>\<open>newTEMP\<close> and \<^verbatim>\<open>newLabelIF\<close>/\<^verbatim>\<open>newLabelWHILE\<close> answer the decimal text of
  a counter and advance it. The values a counter is reset to are not fixed by the spec and
  are a parameter of \<open>cg_visitFunction\<close>, as is \<^verbatim>\<open>Types.to_string\<close>.
\<close>

datatype instruction = Instr string "string list"

abbreviation ILOAD :: "string \<Rightarrow> string \<Rightarrow> instruction" where
  "ILOAD a b \<equiv> Instr ''ILOAD'' [a, b]"

abbreviation FLOAD :: "string \<Rightarrow> string \<Rightarrow> instruction" where
  "FLOAD a b \<equiv> Instr ''FLOAD'' [a, b]"

abbreviation CHLOAD :: "string \<Rightarrow> string \<Rightarrow> instruction" where
  "CHLOAD a b \<equiv> Instr ''CHLOAD'' [a, b]"

abbreviation LOAD :: "string \<Rightarrow> string \<Rightarrow> instruction" where
  "LOAD a b \<equiv> Instr ''LOAD'' [a, b]"

abbreviation FLOAT :: "string \<Rightarrow> string \<Rightarrow> instruction" where
  "FLOAT a b \<equiv> Instr ''FLOAT'' [a, b]"

abbreviation ALOAD :: "string \<Rightarrow> string \<Rightarrow> instruction" where
  "ALOAD a b \<equiv> Instr ''ALOAD'' [a, b]"

abbreviation NEG :: "string \<Rightarrow> string \<Rightarrow> instruction" where
  "NEG a b \<equiv> Instr ''NEG'' [a, b]"

abbreviation FNEG :: "string \<Rightarrow> string \<Rightarrow> instruction" where
  "FNEG a b \<equiv> Instr ''FNEG'' [a, b]"

abbreviation NOT :: "string \<Rightarrow> string \<Rightarrow> instruction" where
  "NOT a b \<equiv> Instr ''NOT'' [a, b]"

abbreviation FJUMP :: "string \<Rightarrow> string \<Rightarrow> instruction" where
  "FJUMP a b \<equiv> Instr ''FJUMP'' [a, b]"

abbreviation LOADX :: "string \<Rightarrow> string \<Rightarrow> string \<Rightarrow> instruction" where
  "LOADX a b c \<equiv> Instr ''LOADX'' [a, b, c]"

abbreviation XLOAD :: "string \<Rightarrow> string \<Rightarrow> string \<Rightarrow> instruction" where
  "XLOAD a b c \<equiv> Instr ''XLOAD'' [a, b, c]"

abbreviation ADD :: "string \<Rightarrow> string \<Rightarrow> string \<Rightarrow> instruction" where
  "ADD a b c \<equiv> Instr ''ADD'' [a, b, c]"

abbreviation SUB :: "string \<Rightarrow> string \<Rightarrow> string \<Rightarrow> instruction" where
  "SUB a b c \<equiv> Instr ''SUB'' [a, b, c]"

abbreviation MUL :: "string \<Rightarrow> string \<Rightarrow> string \<Rightarrow> instruction" where
  "MUL a b c \<equiv> Instr ''MUL'' [a, b, c]"

abbreviation DIV :: "string \<Rightarrow> string \<Rightarrow> string \<Rightarrow> instruction" where
  "DIV a b c \<equiv> Instr ''DIV'' [a, b, c]"

abbreviation FADD :: "string \<Rightarrow> string \<Rightarrow> string \<Rightarrow> instruction" where
  "FADD a b c \<equiv> Instr ''FADD'' [a, b, c]"

abbreviation FSUB :: "string \<Rightarrow> string \<Rightarrow> string \<Rightarrow> instruction" where
  "FSUB a b c \<equiv> Instr ''FSUB'' [a, b, c]"

abbreviation FMUL :: "string \<Rightarrow> string \<Rightarrow> string \<Rightarrow> instruction" where
  "FMUL a b c \<equiv> Instr ''FMUL'' [a, b, c]"

abbreviation FDIV :: "string \<Rightarrow> string \<Rightarrow> string \<Rightarrow> instruction" where
  "FDIV a b c \<equiv> Instr ''FDIV'' [a, b, c]"

abbreviation EQ :: "string \<Rightarrow> string \<Rightarrow> string \<Rightarrow> instruction" where
  "EQ a b c \<equiv> Instr ''EQ'' [a, b, c]"

abbreviation LT :: "string \<Rightarrow> string \<Rightarrow> string \<Rightarrow> instruction" where
  "LT a b c \<equiv> Instr ''LT'' [a, b, c]"

abbreviation LE :: "string \<Rightarrow> string \<Rightarrow> string \<Rightarrow> instruction" where
  "LE a b c \<equiv> Instr ''LE'' [a, b, c]"

abbreviation FEQ :: "string \<Rightarrow> string \<Rightarrow> string \<Rightarrow> instruction" where
  "FEQ a b c \<equiv> Instr ''FEQ'' [a, b, c]"

abbreviation FLT :: "string \<Rightarrow> string \<Rightarrow> string \<Rightarrow> instruction" where
  "FLT a b c \<equiv> Instr ''FLT'' [a, b, c]"

abbreviation FLE :: "string \<Rightarrow> string \<Rightarrow> string \<Rightarrow> instruction" where
  "FLE a b c \<equiv> Instr ''FLE'' [a, b, c]"

abbreviation AND :: "string \<Rightarrow> string \<Rightarrow> string \<Rightarrow> instruction" where
  "AND a b c \<equiv> Instr ''AND'' [a, b, c]"

abbreviation OR :: "string \<Rightarrow> string \<Rightarrow> string \<Rightarrow> instruction" where
  "OR a b c \<equiv> Instr ''OR'' [a, b, c]"

abbreviation PUSH :: "string \<Rightarrow> instruction" where
  "PUSH a \<equiv> Instr ''PUSH'' [a]"

abbreviation POP :: "string \<Rightarrow> instruction" where
  "POP a \<equiv> Instr ''POP'' [a]"

abbreviation CALL :: "string \<Rightarrow> instruction" where
  "CALL a \<equiv> Instr ''CALL'' [a]"

abbreviation LABEL :: "string \<Rightarrow> instruction" where
  "LABEL a \<equiv> Instr ''LABEL'' [a]"

abbreviation UJUMP :: "string \<Rightarrow> instruction" where
  "UJUMP a \<equiv> Instr ''UJUMP'' [a]"

abbreviation READI :: "string \<Rightarrow> instruction" where
  "READI a \<equiv> Instr ''READI'' [a]"

abbreviation READF :: "string \<Rightarrow> instruction" where
  "READF a \<equiv> Instr ''READF'' [a]"

abbreviation READC :: "string \<Rightarrow> instruction" where
  "READC a \<equiv> Instr ''READC'' [a]"

abbreviation WRITEI :: "string \<Rightarrow> instruction" where
  "WRITEI a \<equiv> Instr ''WRITEI'' [a]"

abbreviation WRITEF :: "string \<Rightarrow> instruction" where
  "WRITEF a \<equiv> Instr ''WRITEF'' [a]"

abbreviation WRITEC :: "string \<Rightarrow> instruction" where
  "WRITEC a \<equiv> Instr ''WRITEC'' [a]"

abbreviation WRITES :: "string \<Rightarrow> instruction" where
  "WRITES a \<equiv> Instr ''WRITES'' [a]"

abbreviation HALT :: "string \<Rightarrow> instruction" where
  "HALT a \<equiv> Instr ''HALT'' [a]"

abbreviation PUSH0 :: "instruction" where
  "PUSH0 \<equiv> Instr ''PUSH'' []"

abbreviation POP0 :: "instruction" where
  "POP0 \<equiv> Instr ''POP'' []"

abbreviation RETURN :: "instruction" where
  "RETURN \<equiv> Instr ''RETURN'' []"

record counters =
  TEMP :: nat
  LabelIF :: nat
  LabelWHILE :: nat

fun string_of_nat :: "nat \<Rightarrow> string" where
  "string_of_nat n =
     (if n < 10 then [char_of (48 + n)]
      else string_of_nat (n div 10) @ [char_of (48 + n mod 10)])"

declare string_of_nat.simps [simp del]

definition newTEMP :: "counters \<Rightarrow> string \<times> counters" where
  "newTEMP c = (string_of_nat (TEMP c), c\<lparr>TEMP := Suc (TEMP c)\<rparr>)"

definition newLabelIF :: "counters \<Rightarrow> string \<times> counters" where
  "newLabelIF c = (string_of_nat (LabelIF c), c\<lparr>LabelIF := Suc (LabelIF c)\<rparr>)"

definition newLabelWHILE :: "counters \<Rightarrow> string \<times> counters" where
  "newLabelWHILE c = (string_of_nat (LabelWHILE c), c\<lparr>LabelWHILE := Suc (LabelWHILE c)\<rparr>)"

record CodeAttribs =
  addr :: string
  offs :: string
  code :: "instruction list"

record var =
  varName :: string
  varType :: string
  varSize :: nat

record subroutine =
  subrName :: string
  subrParams :: "(string \<times> string \<times> bool) list"
  subrVars :: "var list"
  subrInstructions :: "instruction list"

section \<open>Codegen pass\<close>

text \<open>
  \<^verbatim>\<open>examen/asl/CodeGenVisitor.cpp\<close>. The pass reads the symbol table and the decorations
  and advances the counters; an expression visit answers its \<open>CodeAttribs\<close>, a statement
  visit its instruction list.
\<close>

fun cg_visitIdent :: "ident \<Rightarrow> CodeAttribs" where
  "cg_visitIdent (Ident n x) = \<lparr>addr = x, offs = '''', code = []\<rparr>"

text \<open>
  The block the source repeats wherever an array passed by reference is used as a base
  (\<^verbatim>\<open>if (Symbols.isParameterClass(addr)) { temp = newTEMP; LOAD temp, addr; addr = temp }\<close>).
\<close>

definition cg_derefParam ::
  "SymTable \<Rightarrow> string \<Rightarrow> instruction list \<Rightarrow> counters \<Rightarrow> string \<times> instruction list \<times> counters" where
  "cg_derefParam S a cd c =
     (if isParameterClass a S
      then (let (t, c1) = newTEMP c; temp = ''%'' @ t
            in (temp, cd @ [LOAD temp a], c1))
      else (a, cd, c))"

text \<open>
  The block the source repeats in \<^verbatim>\<open>visitUnary\<close>, \<^verbatim>\<open>visitArithmetic\<close>,
  \<^verbatim>\<open>visitRelational\<close>, \<^verbatim>\<open>visitLogical\<close> and \<^verbatim>\<open>visitWriteExpr\<close> for an operand that is
  an indexed value (\<^verbatim>\<open>offs != ""\<close>).
\<close>

definition cg_loadIndexed ::
  "SymTable \<Rightarrow> string \<Rightarrow> string \<Rightarrow> instruction list \<Rightarrow> counters \<Rightarrow> string \<times> instruction list \<times> counters" where
  "cg_loadIndexed S a off cd c =
     (if off \<noteq> ''''
      then (let (t1, c1) = newTEMP c; tempExpr1 = ''%'' @ t1
            in if isLocalVarClass a S
               then (tempExpr1, cd @ [LOADX tempExpr1 a off], c1)
               else (let (t2, c2) = newTEMP c1; tempTempExpr1 = ''%'' @ t2
                     in (tempExpr1, cd @ [LOAD tempTempExpr1 a, LOADX tempExpr1 tempTempExpr1 off], c2)))
      else (a, cd, c))"

text \<open>\<^verbatim>\<open>visitUnary\<close> after its operand has been visited.\<close>

definition cg_unary :: "SymTable \<Rightarrow> unop \<Rightarrow> ty \<Rightarrow> CodeAttribs \<Rightarrow> counters \<Rightarrow> CodeAttribs \<times> counters" where
  "cg_unary S op t1 a1 c =
     (let (a, cd, c1) = cg_loadIndexed S (addr a1) (offs a1) (code a1) c;
          (t, c2) = newTEMP c1;
          temp = ''%'' @ t
      in case op of
           U_NOT \<Rightarrow> (\<lparr>addr = temp, offs = '''', code = cd @ [NOT temp a]\<rparr>, c2)
         | U_PLUS \<Rightarrow> (\<lparr>addr = a, offs = '''', code = cd\<rparr>, c2)
         | U_MINUS \<Rightarrow>
             (if isFloatTy t1
              then (\<lparr>addr = temp, offs = '''', code = cd @ [FNEG temp a]\<rparr>, c2)
              else (\<lparr>addr = temp, offs = '''', code = cd @ [NEG temp a]\<rparr>, c2)))"

text \<open>The coercion of an operand to float: \<^verbatim>\<open>tempAddr = newTEMP; FLOAT tempAddr, addr\<close>.\<close>

definition cg_toFloat ::
  "bool \<Rightarrow> string \<Rightarrow> instruction list \<Rightarrow> counters \<Rightarrow> string \<times> instruction list \<times> counters" where
  "cg_toFloat b a cd c =
     (if b
      then (let (t, c1) = newTEMP c; tempAddr = ''%'' @ t
            in (tempAddr, cd @ [FLOAT tempAddr a], c1))
      else (a, cd, c))"

text \<open>\<^verbatim>\<open>visitArithmetic\<close> after both operands have been visited.\<close>

definition cg_arithmetic ::
  "SymTable \<Rightarrow> arop \<Rightarrow> ty \<Rightarrow> ty \<Rightarrow> CodeAttribs \<Rightarrow> CodeAttribs \<Rightarrow> counters \<Rightarrow> CodeAttribs \<times> counters" where
  "cg_arithmetic S op t1 t2 a1 a2 c =
     (let (addr1, cd1, c1) = cg_loadIndexed S (addr a1) (offs a1) (code a1 @ code a2) c;
          (addr2, cd2, c2) = cg_loadIndexed S (addr a2) (offs a2) cd1 c1;
          (t, c3) = newTEMP c2;
          temp = ''%'' @ t
      in if isIntegerTy t1 \<and> isIntegerTy t2
         then (case op of
                 A_MUL \<Rightarrow> (\<lparr>addr = temp, offs = '''', code = cd2 @ [MUL temp addr1 addr2]\<rparr>, c3)
               | A_DIV \<Rightarrow> (\<lparr>addr = temp, offs = '''', code = cd2 @ [DIV temp addr1 addr2]\<rparr>, c3)
               | A_MOD \<Rightarrow>
                   (let (x2, c4) = newTEMP c3; temp2 = ''%'' @ x2;
                        (x3, c5) = newTEMP c4; temp3 = ''%'' @ x3
                    in (\<lparr>addr = temp, offs = '''',
                         code = cd2 @ [DIV temp2 addr1 addr2, MUL temp3 addr2 temp2,
                                       SUB temp addr1 temp3]\<rparr>, c5))
               | A_PLUS \<Rightarrow> (\<lparr>addr = temp, offs = '''', code = cd2 @ [ADD temp addr1 addr2]\<rparr>, c3)
               | A_MINUS \<Rightarrow> (\<lparr>addr = temp, offs = '''', code = cd2 @ [SUB temp addr1 addr2]\<rparr>, c3))
         else (let (tempAddr1, cd3, c4) = cg_toFloat (isIntegerTy t1) addr1 cd2 c3;
                   (tempAddr2, cd4, c5) = cg_toFloat (isIntegerTy t2) addr2 cd3 c4
               in case op of
                    A_MUL \<Rightarrow> (\<lparr>addr = temp, offs = '''',
                               code = cd4 @ [FMUL temp tempAddr1 tempAddr2]\<rparr>, c5)
                  | A_DIV \<Rightarrow> (\<lparr>addr = temp, offs = '''',
                               code = cd4 @ [FDIV temp tempAddr1 tempAddr2]\<rparr>, c5)
                  | A_MOD \<Rightarrow>
                      (let (x2, c6) = newTEMP c5; temp2 = ''%'' @ x2;
                           (x3, c7) = newTEMP c6; temp3 = ''%'' @ x3
                       in (\<lparr>addr = temp, offs = '''',
                            code = cd4 @ [FDIV temp2 tempAddr1 tempAddr2, FMUL temp3 tempAddr2 temp2,
                                          FSUB temp tempAddr1 temp3]\<rparr>, c7))
                  | A_PLUS \<Rightarrow> (\<lparr>addr = temp, offs = '''',
                                code = cd4 @ [FADD temp tempAddr1 tempAddr2]\<rparr>, c5)
                  | A_MINUS \<Rightarrow> (\<lparr>addr = temp, offs = '''',
                                 code = cd4 @ [FSUB temp tempAddr1 tempAddr2]\<rparr>, c5)))"

text \<open>\<^verbatim>\<open>visitRelational\<close> after both operands have been visited.\<close>

definition cg_relational ::
  "SymTable \<Rightarrow> relop \<Rightarrow> ty \<Rightarrow> ty \<Rightarrow> CodeAttribs \<Rightarrow> CodeAttribs \<Rightarrow> counters \<Rightarrow> CodeAttribs \<times> counters" where
  "cg_relational S op t1 t2 a1 a2 c =
     (let (addr1, cd1, c1) = cg_loadIndexed S (addr a1) (offs a1) (code a1 @ code a2) c;
          (addr2, cd2, c2) = cg_loadIndexed S (addr a2) (offs a2) cd1 c1;
          (t, c3) = newTEMP c2;
          temp = ''%'' @ t
      in if \<not> isFloatTy t1 \<and> \<not> isFloatTy t2
         then (\<lparr>addr = temp, offs = '''',
                code = cd2 @ (case op of
                                R_EQUAL \<Rightarrow> [EQ temp addr1 addr2]
                              | R_DIFF \<Rightarrow> [EQ temp addr1 addr2, NOT temp temp]
                              | R_GT \<Rightarrow> [LT temp addr2 addr1]
                              | R_LT \<Rightarrow> [LT temp addr1 addr2]
                              | R_GTE \<Rightarrow> [LE temp addr2 addr1]
                              | R_LTE \<Rightarrow> [LE temp addr1 addr2])\<rparr>, c3)
         else (let (tempAddr1, cd3, c4) = cg_toFloat (\<not> isFloatTy t1) addr1 cd2 c3;
                   (tempAddr2, cd4, c5) = cg_toFloat (\<not> isFloatTy t2) addr2 cd3 c4
               in (\<lparr>addr = temp, offs = '''',
                    code = cd4 @ (case op of
                                    R_EQUAL \<Rightarrow> [FEQ temp tempAddr1 tempAddr2]
                                  | R_DIFF \<Rightarrow> [FEQ temp tempAddr1 tempAddr2, NOT temp temp]
                                  | R_GT \<Rightarrow> [FLT temp tempAddr2 tempAddr1]
                                  | R_LT \<Rightarrow> [FLT temp tempAddr1 tempAddr2]
                                  | R_GTE \<Rightarrow> [FLE temp tempAddr2 tempAddr1]
                                  | R_LTE \<Rightarrow> [FLE temp tempAddr1 tempAddr2])\<rparr>, c5)))"

text \<open>\<^verbatim>\<open>visitLogical\<close> after both operands have been visited.\<close>

definition cg_logical ::
  "SymTable \<Rightarrow> logop \<Rightarrow> CodeAttribs \<Rightarrow> CodeAttribs \<Rightarrow> counters \<Rightarrow> CodeAttribs \<times> counters" where
  "cg_logical S op a1 a2 c =
     (let (addr1, cd1, c1) = cg_loadIndexed S (addr a1) (offs a1) (code a1 @ code a2) c;
          (addr2, cd2, c2) = cg_loadIndexed S (addr a2) (offs a2) cd1 c1;
          (t, c3) = newTEMP c2;
          temp = ''%'' @ t
      in case op of
           L_AND \<Rightarrow> (\<lparr>addr = temp, offs = '''', code = cd2 @ [AND temp addr1 addr2]\<rparr>, c3)
         | L_OR \<Rightarrow> (\<lparr>addr = temp, offs = '''', code = cd2 @ [OR temp addr1 addr2]\<rparr>, c3))"

text \<open>
  \<^verbatim>\<open>value.substr(1, value.size()-2)\<close>: the text without its first and its last
  character. A \<^verbatim>\<open>CHARVAL\<close> token is never empty (on the empty string \<^verbatim>\<open>substr(1, ...)\<close>
  would throw).
\<close>

definition substr_1_size_minus_2 :: "string \<Rightarrow> string" where
  "substr_1_size_minus_2 v = take (length v - 2) (drop 1 v)"

fun cg_visitValue :: "nodeId \<Rightarrow> valkind \<Rightarrow> string \<Rightarrow> counters \<Rightarrow> CodeAttribs \<times> counters" where
  "cg_visitValue n k text c =
     (let (t, c1) = newTEMP c;
          temp = ''%'' @ t;
          cd = (case k of
                  INTVAL \<Rightarrow> [ILOAD temp text]
                | FLOATVAL \<Rightarrow> [FLOAD temp text]
                | CHARVAL \<Rightarrow> [CHLOAD temp (substr_1_size_minus_2 text)]
                | BOOLVAL \<Rightarrow> [ILOAD temp (if text = ''false'' then ''0'' else ''1'')])
      in (\<lparr>addr = temp, offs = '''', code = cd\<rparr>, c1))"

fun cg_visitExpr :: "SymTable \<Rightarrow> TreeDecoration \<Rightarrow> expr \<Rightarrow> counters \<Rightarrow> CodeAttribs \<times> counters"
and cg_visitFunction_call ::
  "SymTable \<Rightarrow> TreeDecoration \<Rightarrow> function_call \<Rightarrow> counters \<Rightarrow> CodeAttribs \<times> counters"
and cg_visitArgs ::
  "SymTable \<Rightarrow> TreeDecoration \<Rightarrow> ty \<Rightarrow> expr list \<Rightarrow> nat
     \<Rightarrow> instruction list \<times> instruction list \<times> instruction list \<Rightarrow> counters
     \<Rightarrow> (instruction list \<times> instruction list \<times> instruction list) \<times> counters"
where
  "cg_visitExpr S D (Parenthesis n e) c = cg_visitExpr S D e c"
| "cg_visitExpr S D (ExprFunc n f) c = cg_visitFunction_call S D f c"
| "cg_visitExpr S D (Unary n op e) c =
     (let (a1, c1) = cg_visitExpr S D e c
      in cg_unary S op (typeOf D (expr_id e)) a1 c1)"
| "cg_visitExpr S D (Arithmetic n op e1 e2) c =
     (let (a1, c1) = cg_visitExpr S D e1 c;
          (a2, c2) = cg_visitExpr S D e2 c1
      in cg_arithmetic S op (typeOf D (expr_id e1)) (typeOf D (expr_id e2)) a1 a2 c2)"
| "cg_visitExpr S D (Relational n op e1 e2) c =
     (let (a1, c1) = cg_visitExpr S D e1 c;
          (a2, c2) = cg_visitExpr S D e2 c1
      in cg_relational S op (typeOf D (expr_id e1)) (typeOf D (expr_id e2)) a1 a2 c2)"
| "cg_visitExpr S D (Logical n op e1 e2) c =
     (let (a1, c1) = cg_visitExpr S D e1 c;
          (a2, c2) = cg_visitExpr S D e2 c1
      in cg_logical S op a1 a2 c2)"
| "cg_visitExpr S D (ArrayAccess n a e) c =
     (let a1 = cg_visitIdent a;
          (a2, c1) = cg_visitExpr S D e c
      in (\<lparr>addr = ident_text a, offs = addr a2, code = code a1 @ code a2\<rparr>, c1))"
| "cg_visitExpr S D (Value n k text) c = cg_visitValue n k text c"
| "cg_visitExpr S D (ExprIdent n a) c = (cg_visitIdent a, c)"
| "cg_visitFunction_call S D (Function_call n f args) c =
     (let funcName = ident_text f;
          tFunc = typeOf D (ident_id f);
          cd0 = (if \<not> isVoidFunction tFunc then [PUSH0] else []);
          ((cd1, pushCode, popCode), c1) = cg_visitArgs S D tFunc args 0 (cd0, [], []) c;
          cd2 = cd1 @ pushCode @ [CALL funcName] @ popCode
      in if \<not> isVoidFunction tFunc
         then (let (t, c2) = newTEMP c1; temp = ''%'' @ t
               in (\<lparr>addr = temp, offs = '''', code = cd2 @ [POP temp]\<rparr>, c2))
         else (\<lparr>addr = '''', offs = '''', code = cd2\<rparr>, c1))"
| "cg_visitArgs S D tFunc [] i acc c = (acc, c)"
| "cg_visitArgs S D tFunc (e # es) i (cd, pushCode, popCode) c =
     (let (codAt1, c1) = cg_visitExpr S D e c;
          addr1 = addr codAt1;
          cd1 = cd @ code codAt1;
          tExpr = typeOf D (expr_id e);
          tParam = getParameterType tFunc i;
          (tempAddr1, cd2, c2) =
            (if isIntegerTy tExpr \<and> isFloatTy tParam
             then (let (t, c') = newTEMP c1; ta = ''%'' @ t
                   in (ta, cd1 @ [FLOAT ta addr1], c'))
             else if isArrayTy tParam \<and> isLocalVarClass addr1 S
             then (let (t, c') = newTEMP c1; ta = ''%'' @ t
                   in (ta, cd1 @ [ALOAD ta addr1], c'))
             else (addr1, cd1, c1))
      in cg_visitArgs S D tFunc es (Suc i)
           (cd2, pushCode @ [PUSH tempAddr1], popCode @ [POP0]) c2)"

fun cg_visitLeft_expr ::
  "SymTable \<Rightarrow> TreeDecoration \<Rightarrow> left_expr \<Rightarrow> counters \<Rightarrow> CodeAttribs \<times> counters" where
  "cg_visitLeft_expr S D (Left_expr n a None) c =
     (let a1 = cg_visitIdent a
      in (\<lparr>addr = addr a1, offs = '''', code = code a1\<rparr>, c))"
| "cg_visitLeft_expr S D (Left_expr n a (Some e)) c =
     (let a1 = cg_visitIdent a;
          (a2, c1) = cg_visitExpr S D e c;
          (addr1, cd, c2) = cg_derefParam S (addr a1) (code a1 @ code a2) c1
      in (\<lparr>addr = addr1, offs = addr a2, code = cd\<rparr>, c2))"

text \<open>
  \<^verbatim>\<open>visitAssignStmt\<close> after both sides have been visited. \<open>tIdent\<close> is the decorated
  type of the identifier of the left expression when that expression is indexed
  (\<^verbatim>\<open>ctx->left_expr()->expr()\<close>).
\<close>

definition cg_assign ::
  "SymTable \<Rightarrow> ty \<Rightarrow> ty \<Rightarrow> ty option \<Rightarrow> CodeAttribs \<Rightarrow> CodeAttribs \<Rightarrow> counters
     \<Rightarrow> instruction list \<times> counters" where
  "cg_assign S tLeft0 tRight0 tIdent a1 a2 c0 =
     (let offs1 = offs a1;
          offs2 = offs a2;
          tRight = (if isFunctionTy tRight0 then getFuncReturnType tRight0 else tRight0);
          (addr2, cd, c) = cg_toFloat (isFloatTy tLeft0 \<and> isIntegerTy tRight)
                             (addr a2) (code a1 @ code a2) c0;
          addr1 = addr a1;
          tLeft = (case tIdent of Some ti \<Rightarrow> ti | None \<Rightarrow> tLeft0);
          exprIsArrayTy = (offs2 \<noteq> '''')
      in if isArrayTy tLeft \<and> \<not> exprIsArrayTy
         then (if offs1 \<noteq> ''''
               then (cd @ [XLOAD addr1 offs1 addr2], c)
               else (let (b1, cd1, c1) = cg_derefParam S addr1 cd c;
                         (b2, cd2, c2) = cg_derefParam S addr2 cd1 c1;
                         arraySize = getArraySize tLeft;
                         (x1, c3) = newTEMP c2; tempOffs = ''%'' @ x1;
                         (x2, c4) = newTEMP c3; tempRight = ''%'' @ x2
                     in (cd2 @ concat (map (\<lambda>i. [ILOAD tempOffs (string_of_nat i),
                                                  LOADX tempRight b2 tempOffs,
                                                  XLOAD b1 tempOffs tempRight])
                                           [0..<arraySize]), c4)))
         else if \<not> isArrayTy tLeft \<and> exprIsArrayTy
         then (let (b2, cd2, c2) = cg_derefParam S addr2 cd c
               in (cd2 @ [LOADX addr1 b2 offs2], c2))
         else if isArrayTy tLeft \<and> exprIsArrayTy
         then (let (b1, cd1, c1) = cg_derefParam S addr1 cd c;
                   (b2, cd2, c2) = cg_derefParam S addr2 cd1 c1;
                   (x, c3) = newTEMP c2; tempRight = ''%'' @ x
               in (cd2 @ [LOADX tempRight b2 offs2, XLOAD b1 offs1 tempRight], c3))
         else if isFloatTy tRight then (cd @ [FLOAD addr1 addr2], c)
         else if isCharacterTy tRight then (cd @ [CHLOAD addr1 addr2], c)
         else (cd @ [ILOAD addr1 addr2], c))"

text \<open>
  \<^verbatim>\<open>visitIfStmt\<close> between the visit of the condition and the visit of the then-branch:
  an indexed condition (\<^verbatim>\<open>offs1 != ""\<close>) is loaded through \<^verbatim>\<open>LOADX\<close>.
\<close>

definition cg_ifCondition ::
  "SymTable \<Rightarrow> CodeAttribs \<Rightarrow> counters \<Rightarrow> string \<times> instruction list \<times> counters" where
  "cg_ifCondition S a c =
     (if offs a \<noteq> ''''
      then (let (addr1, cd, c1) = cg_derefParam S (addr a) (code a) c
            in (addr1, cd @ [LOADX addr1 addr1 (offs a)], c1))
      else (addr a, code a, c))"

text \<open>\<^verbatim>\<open>visitReadStmt\<close> and \<^verbatim>\<open>visitWriteExpr\<close> after their operand has been visited.\<close>

definition cg_read :: "ty \<Rightarrow> CodeAttribs \<Rightarrow> counters \<Rightarrow> instruction list \<times> counters" where
  "cg_read tid a c =
     (let (temp, c1) = (if offs a \<noteq> '''' then (let (t, c') = newTEMP c in (''%'' @ t, c'))
                        else (addr a, c));
          cd = code a @ [if isFloatTy tid then READF temp
                         else if isCharacterTy tid then READC temp
                         else READI temp]
      in if offs a \<noteq> '''' then (cd @ [XLOAD (addr a) (offs a) temp], c1) else (cd, c1))"

definition cg_write :: "SymTable \<Rightarrow> ty \<Rightarrow> CodeAttribs \<Rightarrow> counters \<Rightarrow> instruction list \<times> counters" where
  "cg_write S tid1 a c =
     (let (temp, cd, c1) = cg_loadIndexed S (addr a) (offs a) (code a) c
      in (cd @ [if isFloatTy tid1 then WRITEF temp
                else if isCharacterTy tid1 then WRITEC temp
                else WRITEI temp], c1))"

fun cg_visitStatement ::
  "SymTable \<Rightarrow> TreeDecoration \<Rightarrow> statement \<Rightarrow> counters \<Rightarrow> instruction list \<times> counters"
and cg_visitStatements ::
  "SymTable \<Rightarrow> TreeDecoration \<Rightarrow> statement list \<Rightarrow> counters \<Rightarrow> instruction list \<times> counters"
where
  "cg_visitStatement S D (AssignStmt n le e) c =
     (let (a1, c1) = cg_visitLeft_expr S D le c;
          tLeft = typeOf D (left_expr_id le);
          (a2, c2) = cg_visitExpr S D e c1;
          tRight = typeOf D (expr_id e)
      in cg_assign S tLeft tRight
           (case le of Left_expr m a None \<Rightarrow> None
                     | Left_expr m a (Some i) \<Rightarrow> Some (typeOf D (ident_id a)))
           a1 a2 c2)"
| "cg_visitStatement S D (IfStmt n e th el) c =
     (let (codAtsE, c1) = cg_visitExpr S D e c;
          (addr1, cd, c2) = cg_ifCondition S codAtsE c1;
          (thenCode, c3) = cg_visitStatements S D th c2;
          (label, c4) = newLabelIF c3;
          labelElse = ''else'' @ label;
          labelEndIf = ''endif'' @ label
      in case el of
           Some els \<Rightarrow>
             (let (elseCode, c5) = cg_visitStatements S D els c4
              in (cd @ [FJUMP addr1 labelElse] @ thenCode @ [UJUMP labelEndIf]
                  @ [LABEL labelElse] @ elseCode @ [LABEL labelEndIf], c5))
         | None \<Rightarrow>
             (cd @ [FJUMP addr1 labelEndIf] @ thenCode @ [LABEL labelEndIf], c4))"
| "cg_visitStatement S D (WhileStmt n e body) c =
     (let (codAtsE, c1) = cg_visitExpr S D e c;
          (code2, c2) = cg_visitStatements S D body c1;
          (label, c3) = newLabelWHILE c2;
          labelWhile = ''while'' @ label;
          labelEndWhile = ''endwhile'' @ label
      in ([LABEL labelWhile] @ code codAtsE @ [FJUMP (addr codAtsE) labelEndWhile]
          @ code2 @ [UJUMP labelWhile] @ [LABEL labelEndWhile], c3))"
| "cg_visitStatement S D (ProcCall n f) c =
     (let (codAts, c1) = cg_visitFunction_call S D f c
      in (code codAts, c1))"
| "cg_visitStatement S D (ReadStmt n le) c =
     (let (codAtsE, c1) = cg_visitLeft_expr S D le c
      in cg_read (typeOf D (left_expr_id le)) codAtsE c1)"
| "cg_visitStatement S D (WriteExpr n e) c =
     (let (codAt1, c1) = cg_visitExpr S D e c
      in cg_write S (typeOf D (expr_id e)) codAt1 c1)"
| "cg_visitStatement S D (WriteString n s) c = ([WRITES s], c)"
| "cg_visitStatement S D (ReturnStmt n eo) c =
     (case eo of
        Some e \<Rightarrow>
          (let (codAt1, c1) = cg_visitExpr S D e c
           in (code codAt1 @ [LOAD ''_result'' (addr codAt1)] @ [RETURN], c1))
      | None \<Rightarrow> ([RETURN], c))"
| "cg_visitStatements S D [] c = ([], c)"
| "cg_visitStatements S D (s # ss) c =
     (let (codeS, c1) = cg_visitStatement S D s c;
          (rest, c2) = cg_visitStatements S D ss c1
      in (codeS @ rest, c2))"

fun cg_visitParameter :: "(ty \<Rightarrow> string) \<Rightarrow> TreeDecoration \<Rightarrow> parameter \<Rightarrow> var" where
  "cg_visitParameter to_string D (Parameter n x ty) =
     (let t1 = typeOf D (type_id ty);
          sz = getSizeOfType t1;
          t1' = (if isArrayTy t1 then getArrayElemType t1 else t1)
      in \<lparr>varName = x, varType = to_string t1', varSize = sz\<rparr>)"

text \<open>The loop of \<^verbatim>\<open>visitVariable_decl\<close>: \<^verbatim>\<open>t1\<close> is replaced by its element type on the way.\<close>

fun cg_declVars :: "(ty \<Rightarrow> string) \<Rightarrow> ty \<Rightarrow> nat \<Rightarrow> string list \<Rightarrow> var list" where
  "cg_declVars to_string t1 sz [] = []"
| "cg_declVars to_string t1 sz (x # xs) =
     (let t1' = (if isArrayTy t1 then getArrayElemType t1 else t1)
      in \<lparr>varName = x, varType = to_string t1', varSize = sz\<rparr> # cg_declVars to_string t1' sz xs)"

fun cg_visitVariable_decl :: "(ty \<Rightarrow> string) \<Rightarrow> TreeDecoration \<Rightarrow> variable_decl \<Rightarrow> var list" where
  "cg_visitVariable_decl to_string D (Variable_decl n ty ids) =
     (let t1 = typeOf D (type_id ty);
          sz = getSizeOfType t1
      in cg_declVars to_string t1 sz ids)"

definition cg_visitDeclarations :: "(ty \<Rightarrow> string) \<Rightarrow> TreeDecoration \<Rightarrow> variable_decl list \<Rightarrow> var list" where
  "cg_visitDeclarations to_string D ds = concat (map (cg_visitVariable_decl to_string D) ds)"

fun cg_visitFunction ::
  "(ty \<Rightarrow> string) \<Rightarrow> counters \<Rightarrow> TreeDecoration \<Rightarrow> function_node \<Rightarrow> SymTable
     \<Rightarrow> subroutine \<times> SymTable" where
  "cg_visitFunction to_string reset D (Function n funcName params bt decls body) S =
     (let sc = scopeOf D n;
          S1 = pushThisScope sc S;
          result = (case bt of
                      Some b \<Rightarrow> [(''_result'', to_string (typeOf D (basic_type_id b)), False)]
                    | None \<Rightarrow> []);
          ps = map (\<lambda>p. let param = cg_visitParameter to_string D p;
                            tParam = typeOf D (parameter_id p)
                        in (varName param, varType param, isArrayTy tParam)) params;
          lvars = cg_visitDeclarations to_string D decls;
          (cd, c1) = cg_visitStatements S1 D body reset;
          S2 = popScope S1
      in (\<lparr>subrName = funcName, subrParams = result @ ps, subrVars = lvars,
           subrInstructions = cd @ [RETURN]\<rparr>, S2))"

text \<open>The loop of \<^verbatim>\<open>visitProgram\<close> over the functions.\<close>

fun cg_visitFunctions ::
  "(ty \<Rightarrow> string) \<Rightarrow> counters \<Rightarrow> TreeDecoration \<Rightarrow> function_node list \<Rightarrow> subroutine list \<Rightarrow> SymTable
     \<Rightarrow> subroutine list \<times> SymTable" where
  "cg_visitFunctions to_string reset D [] my_code S = (my_code, S)"
| "cg_visitFunctions to_string reset D (f # fs) my_code S =
     (let (subr, S1) = cg_visitFunction to_string reset D f S
      in cg_visitFunctions to_string reset D fs (my_code @ [subr]) S1)"

fun cg_visitProgram ::
  "(ty \<Rightarrow> string) \<Rightarrow> counters \<Rightarrow> TreeDecoration \<Rightarrow> program \<Rightarrow> SymTable
     \<Rightarrow> subroutine list \<times> SymTable" where
  "cg_visitProgram to_string reset D (Program n fs) S =
     (let sc = scopeOf D n;
          S1 = pushThisScope sc S;
          (my_code, S2) = cg_visitFunctions to_string reset D fs [] S1;
          S3 = popScope S2
      in (my_code, S3))"

section \<open>The practica variant\<close>

text \<open>
  \<^verbatim>\<open>CL-lab/practica/asl/TypeCheckVisitor.cpp\<close> and \<^verbatim>\<open>practica/asl/CodeGenVisitor.cpp\<close> are
  an earlier stage of the same two passes. The visitors below are the ones that differ
  from the exam variant at a node this development states a property of. Each takes the
  visitor of its children as an argument (the \<^verbatim>\<open>visit(child)\<close> of the source dispatches
  on the child), so it is the method as written, whatever the rest of that variant does.
\<close>

definition tc_visitReturnStmt_practica ::
  "(expr \<Rightarrow> tc_state \<Rightarrow> tc_state) \<Rightarrow> nodeId \<Rightarrow> expr option \<Rightarrow> tc_state \<Rightarrow> tc_state" where
  "tc_visitReturnStmt_practica visit n eo st =
     (let (t1, st1) =
            (case eo of
               None \<Rightarrow> (VoidTy, st)
             | Some e \<Rightarrow> (let st' = visit e st in (getTypeDecor st' (expr_id e), st')));
          t2 = currFunctionType st1
      in if \<not> isErrorTy t2
         then (let ret = getFuncReturnType t2
               in if \<not> copyableTypes t1 ret then emit IncompatibleReturn n st1 else st1)
         else st1)"

definition tc_visitArithmetic_practica ::
  "(expr \<Rightarrow> tc_state \<Rightarrow> tc_state) \<Rightarrow> nodeId \<Rightarrow> arop \<Rightarrow> expr \<Rightarrow> expr \<Rightarrow> tc_state \<Rightarrow> tc_state" where
  "tc_visitArithmetic_practica visit n op e1 e2 st =
     (let st1 = visit e1 st;
          t1 = getTypeDecor st1 (expr_id e1);
          st2 = visit e2 st1;
          t2 = getTypeDecor st2 (expr_id e2);
          st3 = (if (\<not> isErrorTy t1 \<and> \<not> isNumericTy t1) \<or> (\<not> isErrorTy t2 \<and> \<not> isNumericTy t2)
                 then emit IncompatibleOperator n st2 else st2);
          t = getTypeCoercion t1 t2
      in putIsLValueDecor n False (putTypeDecor n t st3))"

definition tc_visitReadStmt_practica ::
  "(left_expr \<Rightarrow> tc_state \<Rightarrow> tc_state) \<Rightarrow> nodeId \<Rightarrow> left_expr \<Rightarrow> tc_state \<Rightarrow> tc_state" where
  "tc_visitReadStmt_practica visit n le st =
     (let st1 = visit le st;
          t1 = getTypeDecor st1 (left_expr_id le);
          st2 = (if \<not> isErrorTy t1 \<and> \<not> isPrimitiveTy t1 \<and> \<not> isFunctionTy t1
                 then emit ReadWriteRequireBasic n st1 else st1)
      in if \<not> isErrorTy t1 \<and> \<not> getIsLValueDecor st2 (left_expr_id le)
         then emit NonReferenceableExpression n st2 else st2)"

text \<open>
  \<^verbatim>\<open>visitExprFunc\<close> of the practica type checker, the same text as in the exam variant: a
  call used as an expression whose node is decorated Void is reported. Its
  \<^verbatim>\<open>visitFunction_call\<close> decorates the call node with the return type of the callee.
\<close>

definition tc_visitExprFunc_practica ::
  "(function_call \<Rightarrow> tc_state \<Rightarrow> tc_state) \<Rightarrow> nodeId \<Rightarrow> function_call \<Rightarrow> tc_state \<Rightarrow> tc_state" where
  "tc_visitExprFunc_practica visit n f st =
     (let st1 = visit f st;
          tFunc = getTypeDecor st1 (call_id f);
          b = getIsLValueDecor st1 (call_id f)
      in if isVoidTy tFunc
         then putIsLValueDecor n False
                (putTypeDecor n ErrorTy (emit IsNotFunction (call_id f) st1))
         else putIsLValueDecor n b (putTypeDecor n tFunc st1))"

text \<open>
  \<^verbatim>\<open>visitProcCall\<close> of the practica codegen: the lines that would emit the call are
  commented out, and the empty list is returned.
\<close>

definition cg_visitProcCall_practica ::
  "nodeId \<Rightarrow> function_call \<Rightarrow> counters \<Rightarrow> instruction list \<times> counters" where
  "cg_visitProcCall_practica n f c = ([], c)"

definition cg_visitValue_practica ::
  "nodeId \<Rightarrow> valkind \<Rightarrow> string \<Rightarrow> counters \<Rightarrow> CodeAttribs \<times> counters" where
  "cg_visitValue_practica n k text c =
     (let (t, c1) = newTEMP c;
          temp = ''%'' @ t;
          cd = (case k of
                  INTVAL \<Rightarrow> [ILOAD temp text]
                | FLOATVAL \<Rightarrow> [FLOAD temp text]
                | CHARVAL \<Rightarrow> [CHLOAD temp text]
                | BOOLVAL \<Rightarrow> [ILOAD temp (if text = ''false'' then ''0'' else ''1'')])
      in (\<lparr>addr = temp, offs = '''', code = cd\<rparr>, c1))"

fun cg_visitArgs_practica ::
  "(expr \<Rightarrow> counters \<Rightarrow> CodeAttribs \<times> counters) \<Rightarrow> TreeDecoration \<Rightarrow> ty \<Rightarrow> expr list \<Rightarrow> nat
     \<Rightarrow> instruction list \<times> instruction list \<times> instruction list \<Rightarrow> counters
     \<Rightarrow> (instruction list \<times> instruction list \<times> instruction list) \<times> counters" where
  "cg_visitArgs_practica visit D tFunc [] i acc c = (acc, c)"
| "cg_visitArgs_practica visit D tFunc (e # es) i (cd, pushCode, popCode) c =
     (let (codAt1, c1) = visit e c;
          addr1 = addr codAt1;
          cd1 = cd @ code codAt1;
          tExpr = typeOf D (expr_id e);
          tParam = getParameterType tFunc i;
          (cd2, c2) =
            (if isIntegerTy tExpr \<and> isFloatTy tParam
             then (let (t, c') = newTEMP c1; tempAddr1 = ''%'' @ t
                   in (cd1 @ [FLOAT tempAddr1 addr1], c'))
             else if isArrayTy tParam
             then (let (t, c') = newTEMP c1; tempAddr1 = ''%'' @ t
                   in (cd1 @ [ALOAD tempAddr1 addr1], c'))
             else (cd1, c1))
      in cg_visitArgs_practica visit D tFunc es (Suc i)
           (cd2, pushCode @ [PUSH addr1], popCode @ [POP0]) c2)"

definition cg_visitFunction_call_practica ::
  "(expr \<Rightarrow> counters \<Rightarrow> CodeAttribs \<times> counters) \<Rightarrow> TreeDecoration \<Rightarrow> function_call \<Rightarrow> counters
     \<Rightarrow> CodeAttribs \<times> counters" where
  "cg_visitFunction_call_practica visit D fc c =
     (case fc of Function_call n f args \<Rightarrow>
        (let funcName = ident_text f;
             tFunc = typeOf D (ident_id f);
             cd0 = [PUSH0];
             ((cd1, pushCode, popCode), c1) = cg_visitArgs_practica visit D tFunc args 0 (cd0, [], []) c;
             cd2 = cd1 @ pushCode @ [CALL funcName] @ popCode;
             (t, c2) = newTEMP c1;
             temp = ''%'' @ t
         in (\<lparr>addr = temp, offs = '''', code = cd2 @ [POP temp]\<rparr>, c2)))"

text \<open>
  \<^verbatim>\<open>visitIfStmt\<close> of the practica codegen, with its comment
  \<^verbatim>\<open>// TODO: MISSING 'ELSE' CODE\<close>: \<^verbatim>\<open>ctx->statements(1)\<close> is never visited.
\<close>

definition cg_visitIfStmt_practica ::
  "(expr \<Rightarrow> counters \<Rightarrow> CodeAttribs \<times> counters)
     \<Rightarrow> (statement list \<Rightarrow> counters \<Rightarrow> instruction list \<times> counters)
     \<Rightarrow> nodeId \<Rightarrow> expr \<Rightarrow> statement list \<Rightarrow> statement list option \<Rightarrow> counters
     \<Rightarrow> instruction list \<times> counters" where
  "cg_visitIfStmt_practica visitE visitS n e th el c =
     (let (codAtsE, c1) = visitE e c;
          (code2, c2) = visitS th c1;
          (label, c3) = newLabelIF c2;
          labelEndIf = ''endif'' @ label
      in (code codAtsE @ [FJUMP (addr codAtsE) labelEndIf] @ code2 @ [LABEL labelEndIf], c3))"

section \<open>What the symbols pass is to register\<close>

text \<open>
  The type a type node denotes, the symbols a function's parameters and declarations
  give rise to, and the scope that declaring them one by one yields (a name already in
  the scope is reported and skipped). The symbols pass is compared with these.
\<close>

fun declared_basic :: "basic_type \<Rightarrow> ty" where
  "declared_basic (Basic_type n b) = createBasicTy b"

fun declared_ty :: "type_node \<Rightarrow> ty" where
  "declared_ty (TypeBasic n b) = declared_basic b"
| "declared_ty (TypeArray n k b) = ArrayTy k (declared_basic b)"
| "declared_ty (TypeMatrix n r c b) = MatrixTy r c (declared_basic b)"

fun declared_return :: "basic_type option \<Rightarrow> ty" where
  "declared_return None = VoidTy"
| "declared_return (Some b) = declared_basic b"




text \<open>The table \<open>S\<close> with the symbols of scope \<open>sc\<close> replaced.\<close>

definition withSymbols :: "nat \<Rightarrow> symbol list \<Rightarrow> SymTable \<Rightarrow> SymTable" where
  "withSymbols sc syms S = S\<lparr>scopes := (scopes S)[sc := (scopes S ! sc)\<lparr>symbols := syms\<rparr>]\<rparr>"

text \<open>
  The sizes a type node writes fit an \<^verbatim>\<open>int\<close>; every type node of a function's parameters
  and declarations does; every function of a program does.
\<close>

fun type_in_range :: "type_node \<Rightarrow> bool" where
  "type_in_range (TypeBasic n b) = True"
| "type_in_range (TypeArray n k b) = (k < 2 ^ 31)"
| "type_in_range (TypeMatrix n r c b) = (r < 2 ^ 31 \<and> c < 2 ^ 31)"

fun declaration_type :: "variable_decl \<Rightarrow> type_node" where
  "declaration_type (Variable_decl n t ids) = t"

fun function_in_range :: "function_node \<Rightarrow> bool" where
  "function_in_range (Function n f ps bt ds body) =
     (list_all (\<lambda>p. type_in_range (parameter_type p)) ps
      \<and> list_all (\<lambda>d. type_in_range (declaration_type d)) ds)"

fun program_in_range :: "program \<Rightarrow> bool" where
  "program_in_range (Program n fs) = list_all function_in_range fs"

section \<open>Example inputs\<close>

text \<open>
  A table as the symbols pass leaves it for
  \<^verbatim>\<open>func f() ... func g(): float ... func main() var x: int; b: array[3] of bool; ok: bool ...\<close>,
  with the scope of \<^verbatim>\<open>main\<close> open inside the global one; an undecorated tree; a
  type-check state inside a function of type \<open>t\<close>; counters at zero.
\<close>

definition ex_table :: SymTable where
  "ex_table =
     \<lparr>scopes =
        [\<lparr>scopeName = ''$global$'',
          symbols = [(''f'', FunctionClass, FunctionTy [] VoidTy),
                     (''g'', FunctionClass, FunctionTy [] FloatTy),
                     (''main'', FunctionClass, FunctionTy [] VoidTy)]\<rparr>,
         \<lparr>scopeName = ''main'',
          symbols = [(''x'', LocalVarClass, IntegerTy),
                     (''b'', LocalVarClass, ArrayTy 3 BooleanTy),
                     (''ok'', LocalVarClass, BooleanTy)]\<rparr>],
      stack = [1, 0]\<rparr>"

definition ex_decor :: TreeDecoration where
  "ex_decor = \<lparr>scopeOf = (\<lambda>n. 0), typeOf = (\<lambda>n. ErrorTy), isLValueOf = (\<lambda>n. False)\<rparr>"

definition ex_state :: "ty \<Rightarrow> tc_state" where
  "ex_state t = \<lparr>Decorations = ex_decor, Errors = [], currFunctionType = t\<rparr>"

definition ex_counters :: counters where
  "ex_counters = \<lparr>TEMP = 0, LabelIF = 0, LabelWHILE = 0\<rparr>"

text \<open>
  Decorations as the type checker leaves them on the identifiers of two calls: node 2 is
  the name of the procedure \<^verbatim>\<open>f\<close>, node 3 the name of the function \<^verbatim>\<open>g\<close>.
\<close>

definition ex_decor_calls :: TreeDecoration where
  "ex_decor_calls =
     ex_decor\<lparr>typeOf := (\<lambda>n. if n = 2 then FunctionTy [] VoidTy
                            else if n = 3 then FunctionTy [] FloatTy else ErrorTy)\<rparr>"


text \<open>
  The tree of \<^verbatim>\<open>func f(a: int, v: array[3] of float): bool  var x, y: char  endfunc\<close>, a
  program of it, and the state of the symbols pass with the global scope open and empty.
\<close>

definition ex_function :: function_node where
  "ex_function =
     Function 10 ''f''
       [Parameter 11 ''a'' (TypeBasic 12 (Basic_type 13 B_INT)),
        Parameter 14 ''v'' (TypeArray 15 3 (Basic_type 16 B_FLOAT))]
       (Some (Basic_type 17 B_BOOL))
       [Variable_decl 18 (TypeBasic 19 (Basic_type 20 B_CHAR)) [''x'', ''y'']]
       [ReturnStmt 21 (Some (Value 22 BOOLVAL ''true''))]"

definition ex_program :: program where
  "ex_program = Program 9 [ex_function]"

definition ex_sym_state :: sym_state where
  "ex_sym_state =
     \<lparr>Decorations = ex_decor, Errors = [],
      Symbols = \<lparr>scopes = [\<lparr>scopeName = ''$global$'', symbols = []\<rparr>], stack = [0]\<rparr>\<rparr>"

text \<open>The tree of \<^verbatim>\<open>func f(v: array[2147483648] of float) endfunc\<close>.\<close>

definition ex_function_big :: function_node where
  "ex_function_big =
     Function 10 ''f'' [Parameter 14 ''v'' (TypeArray 15 2147483648 (Basic_type 16 B_FLOAT))]
       None [] []"

section \<open>The decoration table and the error log\<close>

lemma getTypeDecor_putTypeDecor:
  "getTypeDecor (putTypeDecor n t st) m = (if m = n then t else getTypeDecor st m)"
  by (simp add: getTypeDecor_def putTypeDecor_def)

lemma getTypeDecor_putIsLValueDecor:
  "getTypeDecor (putIsLValueDecor n b st) m = getTypeDecor st m"
  by (simp add: getTypeDecor_def putIsLValueDecor_def)

lemma getTypeDecor_putScopeDecor:
  "getTypeDecor (putScopeDecor n sc st) m = getTypeDecor st m"
  by (simp add: getTypeDecor_def putScopeDecor_def)

lemma getTypeDecor_emit:
  "getTypeDecor (emit k n st) m = getTypeDecor st m"
  by (simp add: getTypeDecor_def emit_def)

lemma getIsLValueDecor_putIsLValueDecor:
  "getIsLValueDecor (putIsLValueDecor n b st) m = (if m = n then b else getIsLValueDecor st m)"
  by (simp add: getIsLValueDecor_def putIsLValueDecor_def)

lemma getIsLValueDecor_putTypeDecor:
  "getIsLValueDecor (putTypeDecor n t st) m = getIsLValueDecor st m"
  by (simp add: getIsLValueDecor_def putTypeDecor_def)

lemma getIsLValueDecor_emit:
  "getIsLValueDecor (emit k n st) m = getIsLValueDecor st m"
  by (simp add: getIsLValueDecor_def emit_def)

lemma getScopeDecor_putScopeDecor:
  "getScopeDecor (putScopeDecor n sc st) m = (if m = n then sc else getScopeDecor st m)"
  by (simp add: getScopeDecor_def putScopeDecor_def)

lemma getScopeDecor_putTypeDecor:
  "getScopeDecor (putTypeDecor n t st) m = getScopeDecor st m"
  by (simp add: getScopeDecor_def putTypeDecor_def)

lemma getScopeDecor_emit:
  "getScopeDecor (emit k n st) m = getScopeDecor st m"
  by (simp add: getScopeDecor_def emit_def)

lemma Errors_putTypeDecor: "Errors (putTypeDecor n t st) = Errors st"
  by (simp add: putTypeDecor_def)

lemma Errors_putIsLValueDecor: "Errors (putIsLValueDecor n b st) = Errors st"
  by (simp add: putIsLValueDecor_def)

lemma Errors_putScopeDecor: "Errors (putScopeDecor n sc st) = Errors st"
  by (simp add: putScopeDecor_def)

lemma Errors_emit: "Errors (emit k n st) = Errors st @ [(k, n)]"
  by (simp add: emit_def)

lemmas decor_simps =
  getTypeDecor_putTypeDecor getTypeDecor_putIsLValueDecor getTypeDecor_putScopeDecor
  getTypeDecor_emit getIsLValueDecor_putIsLValueDecor getIsLValueDecor_putTypeDecor
  getIsLValueDecor_emit getScopeDecor_putScopeDecor getScopeDecor_putTypeDecor
  getScopeDecor_emit Errors_putTypeDecor Errors_putIsLValueDecor Errors_putScopeDecor
  Errors_emit

lemma emitted_same: "emitted st st = []"
  by (simp add: emitted_def)

lemma emitted_append:
  "Errors st' = Errors st @ es \<Longrightarrow> emitted st st' = es"
  by (simp add: emitted_def)

lemma currFunctionType_putTypeDecor: "currFunctionType (putTypeDecor n t st) = currFunctionType st"
  by (simp add: putTypeDecor_def)

lemma currFunctionType_putIsLValueDecor:
  "currFunctionType (putIsLValueDecor n b st) = currFunctionType st"
  by (simp add: putIsLValueDecor_def)

lemma currFunctionType_emit: "currFunctionType (emit k n st) = currFunctionType st"
  by (simp add: emit_def)

lemma Symbols_putTypeDecor: "Symbols (putTypeDecor n t st) = Symbols st"
  by (simp add: putTypeDecor_def)

lemma Symbols_putScopeDecor: "Symbols (putScopeDecor n sc st) = Symbols st"
  by (simp add: putScopeDecor_def)

lemma Symbols_emit: "Symbols (emit k n st) = Symbols st"
  by (simp add: emit_def)

lemmas symbols_simps = Symbols_putTypeDecor Symbols_putScopeDecor Symbols_emit

section \<open>Type checking of arithmetic nodes\<close>

text \<open>
  What \<^verbatim>\<open>visitArithmetic\<close> of the exam variant adds to the error log once both operands
  have been visited, and how it decorates the node.
\<close>

lemma tc_arithmetic_errors:
  "Errors (tc_visitExpr S (Arithmetic n op e1 e2) st) =
     Errors (tc_visitExpr S e2 (tc_visitExpr S e1 st))
     @ (if (if op = A_MOD
            then (\<not> isErrorTy (getTypeDecor (tc_visitExpr S e1 st) (expr_id e1))
                   \<and> \<not> isIntegerTy (getTypeDecor (tc_visitExpr S e1 st) (expr_id e1)))
                 \<or> (\<not> isErrorTy (getTypeDecor (tc_visitExpr S e2 (tc_visitExpr S e1 st)) (expr_id e2))
                   \<and> \<not> isIntegerTy (getTypeDecor (tc_visitExpr S e2 (tc_visitExpr S e1 st)) (expr_id e2)))
            else (\<not> isErrorTy (getTypeDecor (tc_visitExpr S e1 st) (expr_id e1))
                   \<and> \<not> isNumericTy (getTypeDecor (tc_visitExpr S e1 st) (expr_id e1)))
                 \<or> (\<not> isErrorTy (getTypeDecor (tc_visitExpr S e2 (tc_visitExpr S e1 st)) (expr_id e2))
                   \<and> \<not> isNumericTy (getTypeDecor (tc_visitExpr S e2 (tc_visitExpr S e1 st)) (expr_id e2))))
        then [(IncompatibleOperator, n)] else [])"
  by (simp add: Let_def decor_simps split: prod.splits)

lemma tc_arithmetic_type:
  "getTypeDecor (tc_visitExpr S (Arithmetic n op e1 e2) st) n =
     (if op = A_MOD then IntegerTy
      else getTypeCoercion (getTypeDecor (tc_visitExpr S e1 st) (expr_id e1))
             (getTypeDecor (tc_visitExpr S e2 (tc_visitExpr S e1 st)) (expr_id e2)))"
  by (simp add: Let_def decor_simps split: prod.splits)

lemma tc_arithmetic_lvalue:
  "getIsLValueDecor (tc_visitExpr S (Arithmetic n op e1 e2) st) n = False"
  by (simp add: Let_def decor_simps split: prod.splits)

lemma tc_arithmetic_practica_type:
  "getTypeDecor (tc_visitArithmetic_practica visit n op e1 e2 st) n =
     getTypeCoercion (getTypeDecor (visit e1 st) (expr_id e1))
       (getTypeDecor (visit e2 (visit e1 st)) (expr_id e2))"
  by (simp add: tc_visitArithmetic_practica_def Let_def decor_simps)

lemma tc_arithmetic_practica_lvalue:
  "getIsLValueDecor (tc_visitArithmetic_practica visit n op e1 e2 st) n = False"
  by (simp add: tc_visitArithmetic_practica_def Let_def decor_simps)

text \<open>
  C3, as the code has it. The claim gives one rule for the five operators; the exam
  variant decorates a \<^verbatim>\<open>%\<close> node Integer whatever its operands are (the counterexample
  is \<^verbatim>\<open>1.5 % 2\<close>). Amended: with operator \<^verbatim>\<open>%\<close> the exam type checker emits
  IncompatibleOperator if and only if some operand's decorated type is neither ErrorTy
  nor Integer, and decorates the node Integer; with \<^verbatim>\<open>+ - * /\<close> both variants decorate
  the node Float if either operand is Float and Integer otherwise; isLValue is false in
  every case.
\<close>

theorem C3_arithmetic_rule:
  "(let st1 = tc_visitExpr S e1 st;
        t1 = getTypeDecor st1 (expr_id e1);
        st2 = tc_visitExpr S e2 st1;
        t2 = getTypeDecor st2 (expr_id e2);
        st' = tc_visitExpr S (Arithmetic n op e1 e2) st
    in (if op = A_MOD
        then ((IncompatibleOperator, n) \<in> set (emitted st2 st')
                \<longleftrightarrow> (\<not> isErrorTy t1 \<and> \<not> isIntegerTy t1) \<or> (\<not> isErrorTy t2 \<and> \<not> isIntegerTy t2))
             \<and> getTypeDecor st' n = IntegerTy
        else getTypeDecor st' n = (if isFloatTy t1 \<or> isFloatTy t2 then FloatTy else IntegerTy))
       \<and> getIsLValueDecor st' n = False)
   \<and> (let st1 = visit e1 st;
           t1 = getTypeDecor st1 (expr_id e1);
           st2 = visit e2 st1;
           t2 = getTypeDecor st2 (expr_id e2);
           st' = tc_visitArithmetic_practica visit n op e1 e2 st
       in (op = A_MOD
           \<or> getTypeDecor st' n = (if isFloatTy t1 \<or> isFloatTy t2 then FloatTy else IntegerTy))
          \<and> getIsLValueDecor st' n = False)"
proof -
  have mod_errors:
    "emitted (tc_visitExpr S e2 (tc_visitExpr S e1 st)) (tc_visitExpr S (Arithmetic n A_MOD e1 e2) st)
       = (if (\<not> isErrorTy (getTypeDecor (tc_visitExpr S e1 st) (expr_id e1))
               \<and> \<not> isIntegerTy (getTypeDecor (tc_visitExpr S e1 st) (expr_id e1)))
             \<or> (\<not> isErrorTy (getTypeDecor (tc_visitExpr S e2 (tc_visitExpr S e1 st)) (expr_id e2))
               \<and> \<not> isIntegerTy (getTypeDecor (tc_visitExpr S e2 (tc_visitExpr S e1 st)) (expr_id e2)))
          then [(IncompatibleOperator, n)] else [])"
    by (rule emitted_append) (simp add: tc_arithmetic_errors del: tc_visitExpr.simps)
  show ?thesis
    unfolding Let_def
    by (simp add: mod_errors tc_arithmetic_type tc_arithmetic_lvalue tc_arithmetic_practica_type
          tc_arithmetic_practica_lvalue getTypeCoercion_def del: tc_visitExpr.simps)
qed

text \<open>
  At \<^verbatim>\<open>1.5 % 2\<close> the left operand is Float, yet the exam variant decorates the node
  Integer (and reports the operator).
\<close>

theorem C3_counterexample:
  "isFloatTy (getTypeDecor (tc_visitExpr ex_table (Value 5 FLOATVAL ''1.5'') (ex_state VoidTy)) 5)
   \<and> getTypeDecor (tc_visitExpr ex_table
        (Arithmetic 0 A_MOD (Value 5 FLOATVAL ''1.5'') (Value 2 INTVAL ''2'')) (ex_state VoidTy)) 0
     = IntegerTy
   \<and> getTypeDecor (tc_visitExpr ex_table
        (Arithmetic 0 A_MOD (Value 5 FLOATVAL ''1.5'') (Value 2 INTVAL ''2'')) (ex_state VoidTy)) 0
     \<noteq> FloatTy"
  by code_simp

text \<open>
  The rule at \<^verbatim>\<open>x % b\<close> with \<^verbatim>\<open>x\<close> an integer and \<^verbatim>\<open>b\<close> an array in the exam variant
  (one error, node Integer), and at \<^verbatim>\<open>1.5 + 2\<close> in the practica variant (node Float).
\<close>

theorem C3_arithmetic_rule_witness:
  "(IncompatibleOperator, 0) \<in> set (emitted
       (tc_visitExpr ex_table (ExprIdent 3 (Ident 4 ''b''))
          (tc_visitExpr ex_table (ExprIdent 5 (Ident 2 ''x'')) (ex_state VoidTy)))
       (tc_visitExpr ex_table
          (Arithmetic 0 A_MOD (ExprIdent 5 (Ident 2 ''x'')) (ExprIdent 3 (Ident 4 ''b'')))
          (ex_state VoidTy)))
   \<and> getTypeDecor (tc_visitExpr ex_table
        (Arithmetic 0 A_MOD (ExprIdent 5 (Ident 2 ''x'')) (ExprIdent 3 (Ident 4 ''b'')))
        (ex_state VoidTy)) 0 = IntegerTy
   \<and> getTypeDecor (tc_visitArithmetic_practica (tc_visitExpr ex_table) 0 A_PLUS
        (Value 5 FLOATVAL ''1.5'') (Value 2 INTVAL ''2'') (ex_state VoidTy)) 0 = FloatTy"
proof -
  have ops:
    "getTypeDecor (tc_visitExpr ex_table (ExprIdent 5 (Ident 2 ''x'')) (ex_state VoidTy)) 5 = IntegerTy"
    "getTypeDecor (tc_visitExpr ex_table (ExprIdent 3 (Ident 4 ''b''))
       (tc_visitExpr ex_table (ExprIdent 5 (Ident 2 ''x'')) (ex_state VoidTy))) 3 = ArrayTy 3 BooleanTy"
    "getTypeDecor (tc_visitExpr ex_table (Value 5 FLOATVAL ''1.5'') (ex_state VoidTy)) 5 = FloatTy"
    by code_simp+
  from C3_arithmetic_rule [of ex_table "ExprIdent 5 (Ident 2 ''x'')" "ex_state VoidTy"
      "ExprIdent 3 (Ident 4 ''b'')" 0 A_MOD]
    C3_arithmetic_rule [of ex_table "Value 5 FLOATVAL ''1.5''" "ex_state VoidTy"
      "Value 2 INTVAL ''2''" 0 A_PLUS "tc_visitExpr ex_table"]
  show ?thesis
    by (simp add: Let_def ops isErrorTy_def isIntegerTy_def isFloatTy_def del: tc_visitExpr.simps)
qed

text \<open>
  C10. Every arithmetic node is decorated Integer or Float, never ErrorTy, whatever the
  types of its operands; when neither operand is Float the node is Integer. This holds in
  the exam variant and in the practica variant (there for any visitor of the operands).
\<close>

theorem C10_arithmetic_decoration_is_numeric:
  "(getTypeDecor (tc_visitExpr S (Arithmetic n op e1 e2) st) n = IntegerTy
      \<or> getTypeDecor (tc_visitExpr S (Arithmetic n op e1 e2) st) n = FloatTy)
   \<and> \<not> isErrorTy (getTypeDecor (tc_visitExpr S (Arithmetic n op e1 e2) st) n)
   \<and> (\<not> isFloatTy (getTypeDecor (tc_visitExpr S e1 st) (expr_id e1))
        \<and> \<not> isFloatTy (getTypeDecor (tc_visitExpr S e2 (tc_visitExpr S e1 st)) (expr_id e2))
      \<longrightarrow> getTypeDecor (tc_visitExpr S (Arithmetic n op e1 e2) st) n = IntegerTy)
   \<and> (getTypeDecor (tc_visitArithmetic_practica visit n op e1 e2 st) n = IntegerTy
      \<or> getTypeDecor (tc_visitArithmetic_practica visit n op e1 e2 st) n = FloatTy)
   \<and> \<not> isErrorTy (getTypeDecor (tc_visitArithmetic_practica visit n op e1 e2 st) n)
   \<and> (\<not> isFloatTy (getTypeDecor (visit e1 st) (expr_id e1))
        \<and> \<not> isFloatTy (getTypeDecor (visit e2 (visit e1 st)) (expr_id e2))
      \<longrightarrow> getTypeDecor (tc_visitArithmetic_practica visit n op e1 e2 st) n = IntegerTy)"
  by (simp add: tc_arithmetic_type tc_arithmetic_practica_type getTypeCoercion_def isErrorTy_def
        del: tc_visitExpr.simps)

text \<open>
  \<^verbatim>\<open>u + v\<close> with neither name declared: both operands are ErrorTy, the node is Integer.
\<close>

theorem C10_arithmetic_decoration_is_numeric_witness:
  "isErrorTy (getTypeDecor (tc_visitExpr ex_table (ExprIdent 5 (Ident 2 ''u'')) (ex_state VoidTy)) 5)
   \<and> isErrorTy (getTypeDecor (tc_visitExpr ex_table (ExprIdent 3 (Ident 4 ''v''))
        (tc_visitExpr ex_table (ExprIdent 5 (Ident 2 ''u'')) (ex_state VoidTy))) 3)
   \<and> getTypeDecor (tc_visitExpr ex_table
        (Arithmetic 0 A_PLUS (ExprIdent 5 (Ident 2 ''u'')) (ExprIdent 3 (Ident 4 ''v'')))
        (ex_state VoidTy)) 0 = IntegerTy
   \<and> getTypeDecor (tc_visitArithmetic_practica (tc_visitExpr ex_table) 0 A_PLUS
        (ExprIdent 5 (Ident 2 ''u'')) (ExprIdent 3 (Ident 4 ''v'')) (ex_state VoidTy)) 0 = IntegerTy"
proof -
  have ops:
    "getTypeDecor (tc_visitExpr ex_table (ExprIdent 5 (Ident 2 ''u'')) (ex_state VoidTy)) 5 = ErrorTy"
    "getTypeDecor (tc_visitExpr ex_table (ExprIdent 3 (Ident 4 ''v''))
       (tc_visitExpr ex_table (ExprIdent 5 (Ident 2 ''u'')) (ex_state VoidTy))) 3 = ErrorTy"
    by code_simp+
  from C10_arithmetic_decoration_is_numeric [of ex_table 0 A_PLUS "ExprIdent 5 (Ident 2 ''u'')"
      "ExprIdent 3 (Ident 4 ''v'')" "ex_state VoidTy" "tc_visitExpr ex_table"]
  show ?thesis
    by (simp add: ops isErrorTy_def isFloatTy_def del: tc_visitExpr.simps)
qed

section \<open>Type checking of read statements\<close>

lemma tc_read_errors:
  "Errors (tc_visitStatement S (ReadStmt n le) st) =
     Errors (tc_visitLeft_expr S le st)
     @ (if \<not> isErrorTy (getTypeDecor (tc_visitLeft_expr S le st) (left_expr_id le))
           \<and> \<not> isPrimitiveTy (getTypeDecor (tc_visitLeft_expr S le st) (left_expr_id le))
           \<and> \<not> isFunctionTy (getTypeDecor (tc_visitLeft_expr S le st) (left_expr_id le))
        then [(ReadWriteRequireBasic, n)] else [])
     @ (if \<not> isErrorTy (getTypeDecor (tc_visitLeft_expr S le st) (left_expr_id le))
           \<and> \<not> getIsLValueDecor (tc_visitLeft_expr S le st) (left_expr_id le)
        then [(NonReferenceableExpression, n)] else [])"
  by (simp add: Let_def decor_simps)

lemma tc_read_practica_errors:
  "Errors (tc_visitReadStmt_practica visit n le st) =
     Errors (visit le st)
     @ (if \<not> isErrorTy (getTypeDecor (visit le st) (left_expr_id le))
           \<and> \<not> isPrimitiveTy (getTypeDecor (visit le st) (left_expr_id le))
           \<and> \<not> isFunctionTy (getTypeDecor (visit le st) (left_expr_id le))
        then [(ReadWriteRequireBasic, n)] else [])
     @ (if \<not> isErrorTy (getTypeDecor (visit le st) (left_expr_id le))
           \<and> \<not> getIsLValueDecor (visit le st) (left_expr_id le)
        then [(NonReferenceableExpression, n)] else [])"
  by (simp add: tc_visitReadStmt_practica_def Let_def decor_simps)

text \<open>
  C6, as the code has it. Both variants guard the first check with
  \<^verbatim>\<open>not Types.isFunctionTy(t1)\<close>: reading into a function name is reported once, as a
  non-referenceable expression (the counterexample is \<^verbatim>\<open>read f\<close>). Amended: for every
  read statement whose target has a decorated type that is not ErrorTy, the type checker
  emits ReadWriteRequireBasic if and only if the target's type is neither primitive nor a
  function type, and emits NonReferenceableExpression if and only if the target's
  isLValue decoration is false.
\<close>

theorem C6_read_statement_rule:
  "(let st1 = tc_visitLeft_expr S le st;
        t = getTypeDecor st1 (left_expr_id le);
        st' = tc_visitStatement S (ReadStmt n le) st
    in \<not> isErrorTy t \<longrightarrow>
         ((ReadWriteRequireBasic, n) \<in> set (emitted st1 st')
            \<longleftrightarrow> \<not> isPrimitiveTy t \<and> \<not> isFunctionTy t)
         \<and> ((NonReferenceableExpression, n) \<in> set (emitted st1 st')
            \<longleftrightarrow> \<not> getIsLValueDecor st1 (left_expr_id le)))
   \<and> (let st1 = visit le st;
           t = getTypeDecor st1 (left_expr_id le);
           st' = tc_visitReadStmt_practica visit n le st
       in \<not> isErrorTy t \<longrightarrow>
            ((ReadWriteRequireBasic, n) \<in> set (emitted st1 st')
               \<longleftrightarrow> \<not> isPrimitiveTy t \<and> \<not> isFunctionTy t)
            \<and> ((NonReferenceableExpression, n) \<in> set (emitted st1 st')
               \<longleftrightarrow> \<not> getIsLValueDecor st1 (left_expr_id le)))"
proof -
  have exam:
    "emitted (tc_visitLeft_expr S le st) (tc_visitStatement S (ReadStmt n le) st) =
       (if \<not> isErrorTy (getTypeDecor (tc_visitLeft_expr S le st) (left_expr_id le))
           \<and> \<not> isPrimitiveTy (getTypeDecor (tc_visitLeft_expr S le st) (left_expr_id le))
           \<and> \<not> isFunctionTy (getTypeDecor (tc_visitLeft_expr S le st) (left_expr_id le))
        then [(ReadWriteRequireBasic, n)] else [])
       @ (if \<not> isErrorTy (getTypeDecor (tc_visitLeft_expr S le st) (left_expr_id le))
             \<and> \<not> getIsLValueDecor (tc_visitLeft_expr S le st) (left_expr_id le)
          then [(NonReferenceableExpression, n)] else [])"
    by (rule emitted_append) (simp only: tc_read_errors append_assoc)
  have practica:
    "emitted (visit le st) (tc_visitReadStmt_practica visit n le st) =
       (if \<not> isErrorTy (getTypeDecor (visit le st) (left_expr_id le))
           \<and> \<not> isPrimitiveTy (getTypeDecor (visit le st) (left_expr_id le))
           \<and> \<not> isFunctionTy (getTypeDecor (visit le st) (left_expr_id le))
        then [(ReadWriteRequireBasic, n)] else [])
       @ (if \<not> isErrorTy (getTypeDecor (visit le st) (left_expr_id le))
             \<and> \<not> getIsLValueDecor (visit le st) (left_expr_id le)
          then [(NonReferenceableExpression, n)] else [])"
    by (rule emitted_append) (simp only: tc_read_practica_errors append_assoc)
  show ?thesis
    unfolding Let_def exam practica by (simp del: tc_visitStatement.simps tc_visitLeft_expr.simps)
qed

text \<open>
  \<^verbatim>\<open>read f\<close> with \<^verbatim>\<open>f\<close> a function: the target's type is neither ErrorTy nor primitive,
  and no ReadWriteRequireBasic is emitted.
\<close>

theorem C6_counterexample:
  "\<not> isErrorTy (getTypeDecor (tc_visitLeft_expr ex_table (Left_expr 5 (Ident 2 ''f'') None)
                   (ex_state VoidTy)) 5)
   \<and> \<not> isPrimitiveTy (getTypeDecor (tc_visitLeft_expr ex_table (Left_expr 5 (Ident 2 ''f'') None)
                   (ex_state VoidTy)) 5)
   \<and> (ReadWriteRequireBasic, 0) \<notin> set (emitted
         (tc_visitLeft_expr ex_table (Left_expr 5 (Ident 2 ''f'') None) (ex_state VoidTy))
         (tc_visitStatement ex_table (ReadStmt 0 (Left_expr 5 (Ident 2 ''f'') None))
            (ex_state VoidTy)))"
  by code_simp

text \<open>
  \<^verbatim>\<open>read b\<close> with \<^verbatim>\<open>b\<close> a local array: an l-value that is not primitive, so
  ReadWriteRequireBasic is emitted and NonReferenceableExpression is not.
\<close>

theorem C6_read_statement_rule_witness:
  "\<not> isErrorTy (getTypeDecor (tc_visitLeft_expr ex_table (Left_expr 5 (Ident 2 ''b'') None)
                   (ex_state VoidTy)) 5)
   \<and> (ReadWriteRequireBasic, 0) \<in> set (emitted
         (tc_visitLeft_expr ex_table (Left_expr 5 (Ident 2 ''b'') None) (ex_state VoidTy))
         (tc_visitStatement ex_table (ReadStmt 0 (Left_expr 5 (Ident 2 ''b'') None))
            (ex_state VoidTy)))
   \<and> (NonReferenceableExpression, 0) \<notin> set (emitted
         (tc_visitLeft_expr ex_table (Left_expr 5 (Ident 2 ''b'') None) (ex_state VoidTy))
         (tc_visitStatement ex_table (ReadStmt 0 (Left_expr 5 (Ident 2 ''b'') None))
            (ex_state VoidTy)))"
proof -
  have target:
    "getTypeDecor (tc_visitLeft_expr ex_table (Left_expr 5 (Ident 2 ''b'') None)
       (ex_state VoidTy)) 5 = ArrayTy 3 BooleanTy"
    "getIsLValueDecor (tc_visitLeft_expr ex_table (Left_expr 5 (Ident 2 ''b'') None)
       (ex_state VoidTy)) 5"
    by code_simp+
  from C6_read_statement_rule [of ex_table "Left_expr 5 (Ident 2 ''b'') None" "ex_state VoidTy" 0]
  show ?thesis
    by (simp add: Let_def target isErrorTy_def isPrimitiveTy_def isIntegerTy_def isFloatTy_def
          isBooleanTy_def isCharacterTy_def del: tc_visitStatement.simps tc_visitLeft_expr.simps)
qed

section \<open>Type checking of return statements\<close>

text \<open>Visiting an expression leaves the current function type alone.\<close>

lemma tc_visitIdent_currFunctionType:
  "currFunctionType (tc_visitIdent S a st) = currFunctionType st"
  by (cases a)
     (simp add: Let_def currFunctionType_putTypeDecor currFunctionType_putIsLValueDecor
        currFunctionType_emit)

lemma tc_checkParameters_currFunctionType:
  "currFunctionType (tc_checkParameters tFunc es i st) = currFunctionType st"
  by (induction es arbitrary: i st) (simp_all add: Let_def currFunctionType_emit)

lemma tc_visitExprs_currFunctionType:
  assumes "\<And>e st. e \<in> set es \<Longrightarrow> currFunctionType (tc_visitExpr S e st) = currFunctionType st"
  shows "currFunctionType (tc_visitExprs S es st) = currFunctionType st"
  using assms by (induction es arbitrary: st) simp_all

lemma tc_visitExpr_currFunctionType_all:
  "\<forall>st. currFunctionType (tc_visitExpr S e st) = currFunctionType st"
  "\<forall>st. currFunctionType (tc_visitFunction_call S f st) = currFunctionType st"
proof (induction e and f)
  case (Function_call n a args)
  then show ?case
    by (simp add: Let_def currFunctionType_putTypeDecor currFunctionType_putIsLValueDecor
          currFunctionType_emit tc_visitIdent_currFunctionType
          tc_checkParameters_currFunctionType tc_visitExprs_currFunctionType)
qed (simp_all add: Let_def currFunctionType_putTypeDecor currFunctionType_putIsLValueDecor
       currFunctionType_emit tc_visitIdent_currFunctionType split: prod.splits)

lemma tc_visitExpr_currFunctionType:
  "currFunctionType (tc_visitExpr S e st) = currFunctionType st"
  by (simp add: tc_visitExpr_currFunctionType_all del: tc_visitExpr.simps)

text \<open>
  The exam variant: inside a function whose type is not ErrorTy, a return statement is
  reported exactly when its expression's type (Void without an expression) cannot be
  copied into the declared return type, the declared type being the destination.
\<close>

lemma tc_return_exam_with_expression:
  assumes "\<not> isErrorTy (currFunctionType st)"
  shows "(IncompatibleReturn, n)
           \<in> set (emitted (tc_visitExpr S e st) (tc_visitStatement S (ReturnStmt n (Some e)) st))
         \<longleftrightarrow> \<not> copyableTypes (getFuncReturnType (currFunctionType st))
                               (getTypeDecor (tc_visitExpr S e st) (expr_id e))"
proof -
  have "Errors (tc_visitStatement S (ReturnStmt n (Some e)) st) =
          Errors (tc_visitExpr S e st)
          @ (if \<not> copyableTypes (getFuncReturnType (currFunctionType st))
                                (getTypeDecor (tc_visitExpr S e st) (expr_id e))
             then [(IncompatibleReturn, n)] else [])"
    using assms by (simp add: Let_def tc_visitExpr_currFunctionType Errors_emit)
  then show ?thesis
    by (simp add: emitted_append del: tc_visitStatement.simps)
qed

lemma tc_return_exam_without_expression:
  assumes "\<not> isErrorTy (currFunctionType st)"
  shows "(IncompatibleReturn, n)
           \<in> set (emitted st (tc_visitStatement S (ReturnStmt n None) st))
         \<longleftrightarrow> \<not> copyableTypes (getFuncReturnType (currFunctionType st)) VoidTy"
proof -
  have "Errors (tc_visitStatement S (ReturnStmt n None) st) =
          Errors st
          @ (if \<not> copyableTypes (getFuncReturnType (currFunctionType st)) VoidTy
             then [(IncompatibleReturn, n)] else [])"
    using assms by (simp add: Let_def Errors_emit)
  then show ?thesis
    by (simp add: emitted_append del: tc_visitStatement.simps)
qed

text \<open>The practica variant asks the converse question: the two arguments are swapped.\<close>

lemma tc_return_practica_with_expression:
  assumes "\<not> isErrorTy (currFunctionType (visit e st))"
  shows "(IncompatibleReturn, n)
           \<in> set (emitted (visit e st) (tc_visitReturnStmt_practica visit n (Some e) st))
         \<longleftrightarrow> \<not> copyableTypes (getTypeDecor (visit e st) (expr_id e))
                               (getFuncReturnType (currFunctionType (visit e st)))"
proof -
  have "Errors (tc_visitReturnStmt_practica visit n (Some e) st) =
          Errors (visit e st)
          @ (if \<not> copyableTypes (getTypeDecor (visit e st) (expr_id e))
                                (getFuncReturnType (currFunctionType (visit e st)))
             then [(IncompatibleReturn, n)] else [])"
    using assms by (simp add: tc_visitReturnStmt_practica_def Let_def Errors_emit)
  then show ?thesis
    by (simp add: emitted_append)
qed

text \<open>
  C1, the failing input: \<^verbatim>\<open>return 1\<close> in a function declared to return \<^verbatim>\<open>float\<close>. The
  integer can be copied into the float (\<open>copyableTypes FloatTy IntegerTy\<close>), so the claim
  asks for no error and the exam variant emits none; the practica variant tests
  \<^verbatim>\<open>copyableTypes(t1, ret)\<close>, which is false, and emits IncompatibleReturn. The literal is
  visited by \<^verbatim>\<open>visitValue\<close>, whose text is the same in both files.
\<close>

theorem C1_practica_return_of_integer_in_float_function:
  "\<not> isErrorTy (currFunctionType (ex_state (FunctionTy [] FloatTy)))
   \<and> getTypeDecor (tc_visitExpr ex_table (Value 5 INTVAL ''1'') (ex_state (FunctionTy [] FloatTy))) 5
       = IntegerTy
   \<and> copyableTypes (getFuncReturnType (currFunctionType (ex_state (FunctionTy [] FloatTy)))) IntegerTy
   \<and> Errors (tc_visitReturnStmt_practica (tc_visitExpr ex_table) 0 (Some (Value 5 INTVAL ''1''))
               (ex_state (FunctionTy [] FloatTy)))
       = [(IncompatibleReturn, 0)]
   \<and> Errors (tc_visitStatement ex_table (ReturnStmt 0 (Some (Value 5 INTVAL ''1'')))
               (ex_state (FunctionTy [] FloatTy)))
       = []"
  by code_simp

section \<open>Lowering of calls\<close>

text \<open>
  The argument loop of the exam variant only appends: to the code, the code of the
  arguments and their coercions; to the pushes, one \<^verbatim>\<open>PUSH\<close> with an operand per
  argument; to the pops, one argumentless \<^verbatim>\<open>POP\<close> per argument.
\<close>

lemma cg_visitArgs_layout:
  "\<exists>argCode operands c'.
     cg_visitArgs S D tFunc es i (cd, pushCode, popCode) c =
       ((cd @ argCode, pushCode @ map (\<lambda>a. PUSH a) operands,
         popCode @ replicate (length es) POP0), c')
     \<and> length operands = length es"
proof (induction es arbitrary: i cd pushCode popCode c)
  case Nil
  have "cg_visitArgs S D tFunc [] i (cd, pushCode, popCode) c =
          ((cd @ [], pushCode @ map (\<lambda>a. PUSH a) [], popCode @ replicate (length ([] :: expr list)) POP0), c)"
    by simp
  then show ?case
    by (intro exI [of _ "[]"] exI [of _ c]) simp
next
  case (Cons e es)
  obtain a1 c1 where visit: "cg_visitExpr S D e c = (a1, c1)"
    by (cases "cg_visitExpr S D e c")
  define coerce where
    "coerce = (if isIntegerTy (typeOf D (expr_id e)) \<and> isFloatTy (getParameterType tFunc i)
               then (let (t, c') = newTEMP c1; ta = ''%'' @ t
                     in (ta, (cd @ code a1) @ [FLOAT ta (addr a1)], c'))
               else if isArrayTy (getParameterType tFunc i) \<and> isLocalVarClass (addr a1) S
               then (let (t, c') = newTEMP c1; ta = ''%'' @ t
                     in (ta, (cd @ code a1) @ [ALOAD ta (addr a1)], c'))
               else (addr a1, cd @ code a1, c1))"
  obtain ta cd2 c2 where coerced: "coerce = (ta, cd2, c2)"
    by (cases coerce)
  have "\<exists>extra. cd2 = cd @ code a1 @ extra"
    using coerced unfolding coerce_def
    by (auto simp add: Let_def split: if_splits prod.splits)
  then obtain extra where cd2: "cd2 = cd @ code a1 @ extra" ..
  have step: "cg_visitArgs S D tFunc (e # es) i (cd, pushCode, popCode) c =
                cg_visitArgs S D tFunc es (Suc i) (cd2, pushCode @ [PUSH ta], popCode @ [POP0]) c2"
    using coerced unfolding coerce_def by (simp add: visit Let_def)
  from Cons.IH [of "Suc i" cd2 "pushCode @ [PUSH ta]" "popCode @ [POP0]" c2]
  obtain argCode operands c' where
    rest: "cg_visitArgs S D tFunc es (Suc i) (cd2, pushCode @ [PUSH ta], popCode @ [POP0]) c2 =
             ((cd2 @ argCode, (pushCode @ [PUSH ta]) @ map (\<lambda>a. PUSH a) operands,
               (popCode @ [POP0]) @ replicate (length es) POP0), c')"
    and len: "length operands = length es"
    by blast
  have "cg_visitArgs S D tFunc (e # es) i (cd, pushCode, popCode) c =
          ((cd @ (code a1 @ extra @ argCode), pushCode @ map (\<lambda>a. PUSH a) (ta # operands),
            popCode @ replicate (length (e # es)) POP0), c')"
    by (simp only: step rest) (simp add: cd2 replicate_app_Cons_same)
  then show ?case
    by (intro exI [of _ "code a1 @ extra @ argCode"] exI [of _ "ta # operands"] exI [of _ c'])
       (simp add: len del: cg_visitArgs.simps)
qed

text \<open>
  The exam variant, with the code of the arguments left open: the argumentless \<^verbatim>\<open>PUSH\<close> in
  front and the \<^verbatim>\<open>POP\<close> into the call's address at the end are there exactly when the
  callee is not a void function, with one \<^verbatim>\<open>PUSH\<close> per argument before the \<^verbatim>\<open>CALL\<close>
  and one argumentless \<^verbatim>\<open>POP\<close> per argument after it.
\<close>

lemma cg_call_exam_layout:
  "\<exists>argCode operands.
     code (fst (cg_visitFunction_call S D (Function_call n f es) c)) =
       (if isVoidFunction (typeOf D (ident_id f)) then [] else [PUSH0])
       @ argCode @ map (\<lambda>a. PUSH a) operands @ [CALL (ident_text f)]
       @ replicate (length es) POP0
       @ (if isVoidFunction (typeOf D (ident_id f)) then []
          else [POP (addr (fst (cg_visitFunction_call S D (Function_call n f es) c)))])
     \<and> length operands = length es"
proof (cases "isVoidFunction (typeOf D (ident_id f))")
  case True
  from cg_visitArgs_layout [of S D "typeOf D (ident_id f)" es 0 "[]" "[]" "[]" c]
  obtain argCode operands c' where
    args: "cg_visitArgs S D (typeOf D (ident_id f)) es 0 ([], [], []) c =
             (([] @ argCode, [] @ map (\<lambda>a. PUSH a) operands, [] @ replicate (length es) POP0), c')"
    and len: "length operands = length es"
    by blast
  have "code (fst (cg_visitFunction_call S D (Function_call n f es) c)) =
          argCode @ map (\<lambda>a. PUSH a) operands @ [CALL (ident_text f)] @ replicate (length es) POP0"
    using True by (simp add: args Let_def)
  with True len show ?thesis
    by (intro exI [of _ argCode] exI [of _ operands]) (simp del: cg_visitFunction_call.simps)
next
  case False
  from cg_visitArgs_layout [of S D "typeOf D (ident_id f)" es 0 "[PUSH0]" "[]" "[]" c]
  obtain argCode operands c' where
    args: "cg_visitArgs S D (typeOf D (ident_id f)) es 0 ([PUSH0], [], []) c =
             (([PUSH0] @ argCode, [] @ map (\<lambda>a. PUSH a) operands, [] @ replicate (length es) POP0), c')"
    and len: "length operands = length es"
    by blast
  have call: "cg_visitFunction_call S D (Function_call n f es) c =
          (\<lparr>addr = ''%'' @ string_of_nat (TEMP c'), offs = '''',
            code = [PUSH0] @ argCode @ map (\<lambda>a. PUSH a) operands @ [CALL (ident_text f)]
                   @ replicate (length es) POP0 @ [POP (''%'' @ string_of_nat (TEMP c'))]\<rparr>,
           c'\<lparr>TEMP := Suc (TEMP c')\<rparr>)"
    using False by (simp add: args Let_def newTEMP_def)
  from False len show ?thesis
    by (intro exI [of _ argCode] exI [of _ operands]) (simp add: call del: cg_visitFunction_call.simps)
qed






text \<open>
  The practica type checker on a call used as an expression: when \<^verbatim>\<open>visitFunction_call\<close>
  has decorated the call node Void, the return type of a procedure, the error
  IsNotFunction is reported. The code generator runs on programs without errors, so its
  \<^verbatim>\<open>visitFunction_call\<close>, which only \<^verbatim>\<open>visitExprFunc\<close> reaches in that variant, is not given
  a callee that returns nothing.
\<close>

lemma tc_exprFunc_practica_reports_procedure:
  assumes "isVoidTy (getTypeDecor (visit f st) (call_id f))"
  shows "Errors (tc_visitExprFunc_practica visit n f st)
           = Errors (visit f st) @ [(IsNotFunction, call_id f)]"
  using assms
  by (simp add: tc_visitExprFunc_practica_def Let_def Errors_putIsLValueDecor Errors_putTypeDecor
        Errors_emit)


section \<open>Lowering of procedure-call statements\<close>

text \<open>
  The exam variant: a procedure-call statement emits the code of the call as an
  expression, and that code holds the \<^verbatim>\<open>CALL\<close>.
\<close>

lemma cg_procCall_exam:
  "fst (cg_visitStatement S D (ProcCall n f) c) = code (fst (cg_visitFunction_call S D f c))"
  "snd (cg_visitStatement S D (ProcCall n f) c) = snd (cg_visitFunction_call S D f c)"
  by (simp_all split: prod.splits)

lemma cg_procCall_exam_has_call:
  "CALL (ident_text f) \<in> set (fst (cg_visitStatement S D (ProcCall n (Function_call m f es)) c))"
proof -
  from cg_call_exam_layout [of S D m f es c]
  obtain argCode operands where
    "code (fst (cg_visitFunction_call S D (Function_call m f es) c)) =
       (if isVoidFunction (typeOf D (ident_id f)) then [] else [PUSH0])
       @ argCode @ map (\<lambda>a. PUSH a) operands @ [CALL (ident_text f)]
       @ replicate (length es) POP0
       @ (if isVoidFunction (typeOf D (ident_id f)) then []
          else [POP (addr (fst (cg_visitFunction_call S D (Function_call m f es) c)))])"
    by blast
  then have "CALL (ident_text f) \<in> set (code (fst (cg_visitFunction_call S D (Function_call m f es) c)))"
    by (simp del: cg_visitFunction_call.simps)
  then show ?thesis
    by (simp only: cg_procCall_exam)
qed

lemma cg_procCall_practica_empty:
  "fst (cg_visitProcCall_practica n f c) = []"
  by (simp add: cg_visitProcCall_practica_def)

text \<open>
  C2, the failing input: the statement \<^verbatim>\<open>f();\<close>. The practica variant returns the empty
  list, while the same call lowered as an expression by that variant has its \<^verbatim>\<open>CALL\<close>;
  the exam variant emits the call.
\<close>

theorem C2_practica_procedure_call_statement:
  "fst (cg_visitProcCall_practica 0 (Function_call 5 (Ident 2 ''f'') []) ex_counters) = []
   \<and> CALL ''f'' \<in> set (code (fst (cg_visitFunction_call_practica
          (cg_visitExpr ex_table ex_decor_calls) ex_decor_calls
          (Function_call 5 (Ident 2 ''f'') []) ex_counters)))
   \<and> fst (cg_visitStatement ex_table ex_decor_calls
            (ProcCall 0 (Function_call 5 (Ident 2 ''f'') [])) ex_counters)
       = [CALL ''f'']"
  by code_simp

section \<open>Lowering of character literals\<close>

text \<open>The exam variant: the operand is the text between the first and the last character.\<close>

lemma cg_charval_exam:
  "cg_visitExpr S D (Value n CHARVAL (q # body @ [q'])) c =
     (\<lparr>addr = ''%'' @ string_of_nat (TEMP c), offs = '''',
       code = [CHLOAD (''%'' @ string_of_nat (TEMP c)) body]\<rparr>,
      c\<lparr>TEMP := Suc (TEMP c)\<rparr>)"
  by (simp add: newTEMP_def substr_1_size_minus_2_def Let_def)

lemma cg_charval_practica:
  "cg_visitValue_practica n CHARVAL text c =
     (\<lparr>addr = ''%'' @ string_of_nat (TEMP c), offs = '''',
       code = [CHLOAD (''%'' @ string_of_nat (TEMP c)) text]\<rparr>,
      c\<lparr>TEMP := Suc (TEMP c)\<rparr>)"
  by (simp add: cg_visitValue_practica_def newTEMP_def Let_def)

text \<open>
  C8, the failing input: the literal \<^verbatim>\<open>'a'\<close>, a text of three characters. The practica
  variant hands the whole text to \<^verbatim>\<open>CHLOAD\<close>, quotes included; the exam variant hands
  over \<^verbatim>\<open>a\<close>.
\<close>

theorem C8_practica_character_literal:
  "code (fst (cg_visitValue_practica 0 CHARVAL [CHR 0x27, CHR ''a'', CHR 0x27] ex_counters))
     = [CHLOAD ''%0'' [CHR 0x27, CHR ''a'', CHR 0x27]]
   \<and> code (fst (cg_visitExpr ex_table ex_decor (Value 0 CHARVAL [CHR 0x27, CHR ''a'', CHR 0x27])
               ex_counters))
     = [CHLOAD ''%0'' ''a'']"
  by code_simp

section \<open>Lowering of if statements\<close>

lemma cg_derefParam_appends:
  "cg_derefParam S a cd c =
     (case cg_derefParam S a [] c of (base, ld, c') \<Rightarrow> (base, cd @ ld, c'))"
  by (simp add: cg_derefParam_def Let_def split: prod.splits)

lemma cg_ifCondition_layout:
  "cg_ifCondition S cond c =
     (case (if offs cond = '''' then (addr cond, [], c)
            else (case cg_derefParam S (addr cond) [] c of
                    (base, ld, c') \<Rightarrow> (base, ld @ [LOADX base base (offs cond)], c')))
      of (a, loadCode, c') \<Rightarrow> (a, code cond @ loadCode, c'))"
  by (simp add: cg_ifCondition_def cg_derefParam_def Let_def split: prod.splits)

text \<open>
  The exam variant. The emitted code is the condition code; for a condition that is an
  indexed value, a \<^verbatim>\<open>LOADX\<close> of the element into the operand of the jump, after a \<^verbatim>\<open>LOAD\<close>
  of the base into a fresh temporary when the base is a parameter; then
  \<^verbatim>\<open>FJUMP cond, elseLabel\<close> when an else branch is present (\<^verbatim>\<open>FJUMP cond, endifLabel\<close> when
  absent), the then-branch code, and when an else branch is present also
  \<^verbatim>\<open>UJUMP endifLabel\<close>, \<^verbatim>\<open>LABEL elseLabel\<close>, the else-branch code, \<^verbatim>\<open>LABEL endifLabel\<close>
  (without one, \<^verbatim>\<open>LABEL endifLabel\<close>). The else branch is visited whenever it exists.
\<close>

lemma cg_if_exam_layout:
  "cg_visitStatement S D (IfStmt n e th el) c =
     (case cg_visitExpr S D e c of (cond, c1) \<Rightarrow>
      case (if offs cond = '''' then (addr cond, [], c1)
            else if isParameterClass (addr cond) S
            then (''%'' @ string_of_nat (TEMP c1),
                  [LOAD (''%'' @ string_of_nat (TEMP c1)) (addr cond),
                   LOADX (''%'' @ string_of_nat (TEMP c1)) (''%'' @ string_of_nat (TEMP c1))
                     (offs cond)],
                  c1\<lparr>TEMP := Suc (TEMP c1)\<rparr>)
            else (addr cond, [LOADX (addr cond) (addr cond) (offs cond)], c1))
      of (a, loadCode, c2) \<Rightarrow>
      case cg_visitStatements S D th c2 of (thenCode, c3) \<Rightarrow>
      case newLabelIF c3 of (label, c4) \<Rightarrow>
        (case el of
           None \<Rightarrow>
             (code cond @ loadCode @ [FJUMP a (''endif'' @ label)] @ thenCode
              @ [LABEL (''endif'' @ label)], c4)
         | Some els \<Rightarrow>
             (case cg_visitStatements S D els c4 of (elseCode, c5) \<Rightarrow>
                (code cond @ loadCode @ [FJUMP a (''else'' @ label)] @ thenCode
                 @ [UJUMP (''endif'' @ label), LABEL (''else'' @ label)] @ elseCode
                 @ [LABEL (''endif'' @ label)], c5))))"
proof (cases el)
  case None
  then show ?thesis
    by (simp add: cg_ifCondition_def cg_derefParam_def newTEMP_def Let_def split: prod.splits)
next
  case (Some els)
  then show ?thesis
    by (simp add: cg_ifCondition_def cg_derefParam_def newTEMP_def Let_def split: prod.splits)
qed

text \<open>
  \<^verbatim>\<open>if b[x] then write "t" endif\<close> with \<^verbatim>\<open>b\<close> a local array, and
  \<^verbatim>\<open>if b[1] then write "t" else write "e" endif\<close>, in the exam variant.
\<close>

lemma cg_if_exam_examples:
  "fst (cg_visitStatement ex_table ex_decor
          (IfStmt 0 (ArrayAccess 5 (Ident 2 ''b'') (ExprIdent 3 (Ident 4 ''x'')))
             [WriteString 6 ''t''] None) ex_counters)
     = [LOADX ''b'' ''b'' ''x'', FJUMP ''b'' ''endif0'', WRITES ''t'', LABEL ''endif0'']"
  "fst (cg_visitStatement ex_table ex_decor
          (IfStmt 0 (ArrayAccess 5 (Ident 2 ''b'') (Value 3 INTVAL ''1''))
             [WriteString 6 ''t''] (Some [WriteString 7 ''e''])) ex_counters)
     = [ILOAD ''%0'' ''1'', LOADX ''b'' ''b'' ''%0'', FJUMP ''b'' ''else0'', WRITES ''t'',
        UJUMP ''endif0'', LABEL ''else0'', WRITES ''e'', LABEL ''endif0'']"
  by code_simp+

text \<open>
  The practica variant never looks at the else branch: the code of an if statement with
  one is the code of the same statement without it.
\<close>

lemma cg_if_practica_ignores_else:
  "cg_visitIfStmt_practica visitE visitS n e th (Some els) c =
     cg_visitIfStmt_practica visitE visitS n e th None c"
  by (simp add: cg_visitIfStmt_practica_def)

lemma cg_if_practica_layout:
  "cg_visitIfStmt_practica visitE visitS n e th el c =
     (case visitE e c of (cond, c1) \<Rightarrow>
      case visitS th c1 of (thenCode, c2) \<Rightarrow>
        (code cond @ [FJUMP (addr cond) (''endif'' @ string_of_nat (LabelIF c2))] @ thenCode
         @ [LABEL (''endif'' @ string_of_nat (LabelIF c2))],
         c2\<lparr>LabelIF := Suc (LabelIF c2)\<rparr>))"
  by (simp add: cg_visitIfStmt_practica_def newLabelIF_def Let_def split: prod.splits)

text \<open>
  C5, the failing input: \<^verbatim>\<open>if ok then write "t" else write "e" endif\<close> with \<^verbatim>\<open>ok\<close> a
  boolean variable. The practica variant emits the code of the statement without its else
  branch: no jump to an else label, and the \<^verbatim>\<open>write "e"\<close> is lost. The exam variant emits
  the layout of the claim. The condition and the two branches are visited by
  \<^verbatim>\<open>visitExprIdent\<close>, \<^verbatim>\<open>visitStatements\<close> and \<^verbatim>\<open>visitWriteString\<close>, whose text is the same in
  both files.
\<close>

theorem C5_practica_if_statement_with_else:
  "fst (cg_visitIfStmt_practica (cg_visitExpr ex_table ex_decor) (cg_visitStatements ex_table ex_decor)
          0 (ExprIdent 3 (Ident 4 ''ok'')) [WriteString 6 ''t''] (Some [WriteString 7 ''e''])
          ex_counters)
     = [FJUMP ''ok'' ''endif0'', WRITES ''t'', LABEL ''endif0'']
   \<and> WRITES ''e'' \<notin> set (fst (cg_visitIfStmt_practica (cg_visitExpr ex_table ex_decor)
          (cg_visitStatements ex_table ex_decor)
          0 (ExprIdent 3 (Ident 4 ''ok'')) [WriteString 6 ''t''] (Some [WriteString 7 ''e''])
          ex_counters))
   \<and> fst (cg_visitStatement ex_table ex_decor
            (IfStmt 0 (ExprIdent 3 (Ident 4 ''ok'')) [WriteString 6 ''t'']
               (Some [WriteString 7 ''e''])) ex_counters)
     = [FJUMP ''ok'' ''else0'', WRITES ''t'', UJUMP ''endif0'', LABEL ''else0'', WRITES ''e'',
        LABEL ''endif0'']"
  by code_simp

section \<open>Symbol table facts\<close>

lemma stack_addSymbol: "stack (addSymbol x k t S) = stack S"
  by (simp add: addSymbol_def split: list.splits)

lemma pop_of_push: "popScope (pushThisScope sc S) = S"
  by (simp add: popScope_def pushThisScope_def)




lemma scopeName_withSymbols:
  "sc < length (scopes S) \<Longrightarrow>
     scopeName (scopes (withSymbols sc syms S) ! sc) = scopeName (scopes S ! sc)"
  by (simp add: withSymbols_def)

lemma nth_withSymbols_other:
  "i \<noteq> sc \<Longrightarrow> scopes (withSymbols sc syms S) ! i = scopes S ! i"
  by (simp add: withSymbols_def)







section \<open>The symbols pass on types, parameters and declarations\<close>

lemma scopeOf_putTypeDecor: "scopeOf (Decorations (putTypeDecor n t st)) = scopeOf (Decorations st)"
  by (simp add: putTypeDecor_def)



lemma sym_visitBasic_type_Symbols: "Symbols (sym_visitBasic_type b st) = Symbols st"
  by (cases b) (simp add: Symbols_putTypeDecor)

lemma sym_visitBasic_type_decor:
  "getTypeDecor (sym_visitBasic_type b st) (basic_type_id b) = declared_basic b"
  by (cases b) (simp add: getTypeDecor_putTypeDecor)

lemma scopeOf_sym_visitBasic_type:
  "scopeOf (Decorations (sym_visitBasic_type b st)) = scopeOf (Decorations st)"
  by (cases b) (simp add: scopeOf_putTypeDecor)

text \<open>
  \<^verbatim>\<open>std::stoi\<close> answers the number itself when it answers. A type node whose sizes fit is
  visited to the end; one with a size that does not fit throws.
\<close>

lemma stoi_returns: "stoi k = Inr j \<longleftrightarrow> k < 2 ^ 31 \<and> j = k"
  by (auto simp add: stoi_def)

lemma stoi_throws: "stoi k = Inl x \<longleftrightarrow> \<not> k < 2 ^ 31"
  by (cases x) (auto simp add: stoi_def)

lemma sym_visitType_in_range:
  "type_in_range ty \<Longrightarrow> \<exists>st'. sym_visitType ty st = Inr st'"
  by (cases ty) (simp_all add: stoi_def Let_def)

lemma sym_visitType_out_of_range:
  "\<not> type_in_range ty \<Longrightarrow> sym_visitType ty st = Inl Out_of_range"
  by (cases ty) (auto simp add: stoi_def Let_def)

lemma sym_visitType_returns:
  assumes "sym_visitType ty st = Inr st'"
  shows "Symbols st' = Symbols st"
    and "getTypeDecor st' (type_id ty) = declared_ty ty"
    and "scopeOf (Decorations st') = scopeOf (Decorations st)"
    and "type_in_range ty"
proof -
  show "Symbols st' = Symbols st"
    using assms
    by (cases ty)
       (auto simp add: Let_def stoi_def Symbols_putTypeDecor sym_visitBasic_type_Symbols
          split: if_splits simp del: sym_visitBasic_type.simps)
  show "getTypeDecor st' (type_id ty) = declared_ty ty"
    using assms
    by (cases ty)
       (auto simp add: Let_def stoi_def getTypeDecor_putTypeDecor sym_visitBasic_type_decor
          split: if_splits simp del: sym_visitBasic_type.simps)
  show "scopeOf (Decorations st') = scopeOf (Decorations st)"
    using assms
    by (cases ty)
       (auto simp add: Let_def stoi_def scopeOf_putTypeDecor scopeOf_sym_visitBasic_type
          split: if_splits simp del: sym_visitBasic_type.simps)
  show "type_in_range ty"
    using assms
    by (cases ty) (auto simp add: Let_def stoi_def split: if_splits)
qed

text \<open>
  A parameter. Either its name is already in the current scope and it is reported, or
  its type is visited and it is declared.
\<close>

lemma sym_visitParameter_cases:
  assumes "sym_visitParameter (Parameter n x ty) st = Inr st'"
  obtains (declared) "findInCurrentScope x (Symbols st)" and "st' = emit DeclaredIdent n st"
  | (fresh) st1 where "\<not> findInCurrentScope x (Symbols st)"
      and "sym_visitType ty st = Inr st1"
      and "st' = (putTypeDecor n (declared_ty ty) st1)
                   \<lparr>Symbols := addParameter x (declared_ty ty) (Symbols st)\<rparr>"
proof (cases "findInCurrentScope x (Symbols st)")
  case True
  with assms have "st' = emit DeclaredIdent n st"
    by simp
  with True show ?thesis
    by (rule declared)
next
  case False
  with assms obtain st1 where
    ty: "sym_visitType ty st = Inr st1"
    and st': "st' = (putTypeDecor n (getTypeDecor st1 (type_id ty)) st1)
                      \<lparr>Symbols := addParameter x (getTypeDecor st1 (type_id ty))
                                      (Symbols (putTypeDecor n (getTypeDecor st1 (type_id ty)) st1))\<rparr>"
    by (auto simp add: Let_def split: sum.splits)
  from st' have "st' = (putTypeDecor n (declared_ty ty) st1)
                         \<lparr>Symbols := addParameter x (declared_ty ty) (Symbols st)\<rparr>"
    by (simp only: sym_visitType_returns(1,2) [OF ty] Symbols_putTypeDecor)
  with False ty show ?thesis
    by (rule fresh)
qed

lemma sym_visitParameter_in_range:
  "type_in_range (parameter_type p) \<Longrightarrow> \<exists>st'. sym_visitParameter p st = Inr st'"
proof (cases p)
  case (Parameter n x ty)
  assume "type_in_range (parameter_type p)"
  with Parameter obtain st1 where "sym_visitType ty st = Inr st1"
    using sym_visitType_in_range [of ty st] by auto
  with Parameter show ?thesis
    by (simp add: Let_def)
qed

lemma stack_sym_visitParameter:
  assumes "sym_visitParameter p st = Inr st'"
  shows "stack (Symbols st') = stack (Symbols st)"
proof (cases p)
  case (Parameter n x ty)
  from assms [unfolded Parameter] show ?thesis
    by (cases rule: sym_visitParameter_cases)
       (simp_all add: Symbols_emit addParameter_def stack_addSymbol)
qed




text \<open>The loop over the parameters.\<close>

lemma sym_visitParameters_step:
  assumes "sym_visitParameters (p # ps) acc st = Inr r"
  obtains st1 where "sym_visitParameter p st = Inr st1"
    and "sym_visitParameters ps (acc @ [getTypeDecor st1 (parameter_id p)]) st1 = Inr r"
  using assms by (auto simp add: Let_def split: sum.splits simp del: sym_visitParameter.simps)

lemma sym_visitParameters_in_range:
  "list_all (\<lambda>p. type_in_range (parameter_type p)) ps \<Longrightarrow>
     \<exists>r. sym_visitParameters ps acc st = Inr r"
proof (induction ps arbitrary: acc st)
  case Nil
  show ?case by simp
next
  case (Cons p ps)
  from Cons.prems obtain st1 where p: "sym_visitParameter p st = Inr st1"
    using sym_visitParameter_in_range [of p st] by auto
  from Cons.prems have "list_all (\<lambda>p. type_in_range (parameter_type p)) ps"
    by simp
  from Cons.IH [OF this, of "acc @ [getTypeDecor st1 (parameter_id p)]" st1] p show ?case
    by (simp add: Let_def del: sym_visitParameter.simps)
qed

lemma stack_sym_visitParameters:
  "sym_visitParameters ps acc st = Inr (tys, st') \<Longrightarrow> stack (Symbols st') = stack (Symbols st)"
proof (induction ps arbitrary: acc st)
  case Nil
  then show ?case by simp
next
  case (Cons p ps)
  from Cons.prems obtain st1 where
    p: "sym_visitParameter p st = Inr st1"
    and rest: "sym_visitParameters ps (acc @ [getTypeDecor st1 (parameter_id p)]) st1 = Inr (tys, st')"
    by (rule sym_visitParameters_step)
  from Cons.IH [OF rest] stack_sym_visitParameter [OF p] show ?case
    by simp
qed





text \<open>The declarations.\<close>

lemma stack_sym_declareIds:
  "stack (Symbols (sym_declareIds n t ids st)) = stack (Symbols st)"
  by (induction ids arbitrary: st) (simp_all add: Symbols_emit addLocalVar_def stack_addSymbol)



lemma sym_visitVariable_decl_cases:
  assumes "sym_visitVariable_decl (Variable_decl n ty ids) st = Inr st'"
  obtains st1 where "sym_visitType ty st = Inr st1"
    and "st' = sym_declareIds n (declared_ty ty) ids st1"
proof -
  from assms obtain st1 where
    ty: "sym_visitType ty st = Inr st1"
    and st': "st' = sym_declareIds n (getTypeDecor st1 (type_id ty)) ids st1"
    by (auto simp add: Let_def split: sum.splits)
  from st' have "st' = sym_declareIds n (declared_ty ty) ids st1"
    by (simp only: sym_visitType_returns(2) [OF ty])
  with ty show ?thesis
    by (rule that)
qed

lemma sym_visitVariable_decl_in_range:
  "type_in_range (declaration_type d) \<Longrightarrow> \<exists>st'. sym_visitVariable_decl d st = Inr st'"
proof (cases d)
  case (Variable_decl n ty ids)
  assume "type_in_range (declaration_type d)"
  with Variable_decl obtain st1 where "sym_visitType ty st = Inr st1"
    using sym_visitType_in_range [of ty st] by auto
  with Variable_decl show ?thesis
    by (simp add: Let_def)
qed

lemma stack_sym_visitVariable_decl:
  assumes "sym_visitVariable_decl d st = Inr st'"
  shows "stack (Symbols st') = stack (Symbols st)"
proof (cases d)
  case (Variable_decl n ty ids)
  from assms [unfolded Variable_decl] show ?thesis
    by (cases rule: sym_visitVariable_decl_cases)
       (simp add: stack_sym_declareIds sym_visitType_returns(1))
qed



lemma sym_visitDeclarations_step:
  assumes "sym_visitDeclarations (d # ds) st = Inr st'"
  obtains st1 where "sym_visitVariable_decl d st = Inr st1"
    and "sym_visitDeclarations ds st1 = Inr st'"
  using assms by (auto split: sum.splits simp del: sym_visitVariable_decl.simps)

lemma sym_visitDeclarations_in_range:
  "list_all (\<lambda>d. type_in_range (declaration_type d)) ds \<Longrightarrow>
     \<exists>st'. sym_visitDeclarations ds st = Inr st'"
proof (induction ds arbitrary: st)
  case Nil
  show ?case by simp
next
  case (Cons d ds)
  from Cons.prems obtain st1 where d: "sym_visitVariable_decl d st = Inr st1"
    using sym_visitVariable_decl_in_range [of d st] by auto
  from Cons.prems have "list_all (\<lambda>d. type_in_range (declaration_type d)) ds"
    by simp
  from Cons.IH [OF this, of st1] d show ?case
    by (simp del: sym_visitVariable_decl.simps)
qed

lemma stack_sym_visitDeclarations:
  "sym_visitDeclarations ds st = Inr st' \<Longrightarrow> stack (Symbols st') = stack (Symbols st)"
proof (induction ds arbitrary: st)
  case Nil
  then show ?case by simp
next
  case (Cons d ds)
  from Cons.prems obtain st1 where
    d: "sym_visitVariable_decl d st = Inr st1" and rest: "sym_visitDeclarations ds st1 = Inr st'"
    by (rule sym_visitDeclarations_step)
  from Cons.IH [OF rest] stack_sym_visitVariable_decl [OF d] show ?case
    by simp
qed



section \<open>The symbols pass on a function\<close>

text \<open>
  A visit of a function node that returns has visited the parameters and the declarations
  in the new scope, and then, with that scope popped, either reported the name or
  declared the function.
\<close>

lemma sym_visitFunction_cases:
  assumes "sym_visitFunction (Function n f ps bt ds body) st = Inr st'"
  obtains tys st2 st3 where
    "sym_visitParameters ps []
       (putScopeDecor n (length (scopes (Symbols st)))
          (st\<lparr>Symbols := (Symbols st)
               \<lparr>scopes := scopes (Symbols st) @ [\<lparr>scopeName = f, symbols = []\<rparr>],
                stack := length (scopes (Symbols st)) # stack (Symbols st)\<rparr>\<rparr>)) = Inr (tys, st2)"
    and "sym_visitDeclarations ds st2 = Inr st3"
    and "st' =
           (if findInCurrentScope f (popScope (Symbols st3))
            then emit DeclaredIdent n (st3\<lparr>Symbols := popScope (Symbols st3)\<rparr>)
            else (putTypeDecor n (FunctionTy tys (declared_return bt))
                    (case bt of None \<Rightarrow> st3\<lparr>Symbols := popScope (Symbols st3)\<rparr>
                     | Some b \<Rightarrow> sym_visitBasic_type b (st3\<lparr>Symbols := popScope (Symbols st3)\<rparr>)))
                 \<lparr>Symbols := addFunction f (FunctionTy tys (declared_return bt))
                                 (popScope (Symbols st3))\<rparr>)"
proof -
  let ?st1 = "putScopeDecor n (length (scopes (Symbols st)))
                (st\<lparr>Symbols := (Symbols st)
                     \<lparr>scopes := scopes (Symbols st) @ [\<lparr>scopeName = f, symbols = []\<rparr>],
                      stack := length (scopes (Symbols st)) # stack (Symbols st)\<rparr>\<rparr>)"
  from assms obtain tys st2 where params: "sym_visitParameters ps [] ?st1 = Inr (tys, st2)"
    by (cases "sym_visitParameters ps [] ?st1") (auto simp add: pushNewScope_def Let_def)
  from assms params obtain st3 where decls: "sym_visitDeclarations ds st2 = Inr st3"
    by (cases "sym_visitDeclarations ds st2") (auto simp add: pushNewScope_def Let_def)
  from assms have
    "st' =
       (if findInCurrentScope f (popScope (Symbols st3))
        then emit DeclaredIdent n (st3\<lparr>Symbols := popScope (Symbols st3)\<rparr>)
        else (putTypeDecor n (FunctionTy tys (declared_return bt))
                (case bt of None \<Rightarrow> st3\<lparr>Symbols := popScope (Symbols st3)\<rparr>
                 | Some b \<Rightarrow> sym_visitBasic_type b (st3\<lparr>Symbols := popScope (Symbols st3)\<rparr>)))
             \<lparr>Symbols := addFunction f (FunctionTy tys (declared_return bt))
                             (popScope (Symbols st3))\<rparr>)"
    by (cases bt)
       (auto simp add: pushNewScope_def Let_def params decls Symbols_putTypeDecor
          sym_visitBasic_type_Symbols sym_visitBasic_type_decor
          split: if_splits simp del: sym_visitBasic_type.simps)
  with params decls show ?thesis
    by (rule that)
qed

lemma sym_visitFunction_in_range:
  assumes "function_in_range fn"
  shows "\<exists>st'. sym_visitFunction fn st = Inr st'"
proof (cases fn)
  case (Function n f ps bt ds body)
  let ?st1 = "putScopeDecor n (length (scopes (Symbols st)))
                (st\<lparr>Symbols := (Symbols st)
                     \<lparr>scopes := scopes (Symbols st) @ [\<lparr>scopeName = f, symbols = []\<rparr>],
                      stack := length (scopes (Symbols st)) # stack (Symbols st)\<rparr>\<rparr>)"
  from assms Function obtain tys st2 where params: "sym_visitParameters ps [] ?st1 = Inr (tys, st2)"
    using sym_visitParameters_in_range [of ps "[]" ?st1] by auto
  from assms Function obtain st3 where decls: "sym_visitDeclarations ds st2 = Inr st3"
    using sym_visitDeclarations_in_range [of ds st2] by auto
  show ?thesis
    unfolding Function
    by (simp add: pushNewScope_def Let_def params decls split: prod.splits)
qed

lemma stack_sym_visitFunction:
  assumes "sym_visitFunction fn st = Inr st'"
  shows "stack (Symbols st') = stack (Symbols st)"
proof (cases fn)
  case (Function n f ps bt ds body)
  from assms [unfolded Function] obtain tys st2 st3 where
    params: "sym_visitParameters ps []
       (putScopeDecor n (length (scopes (Symbols st)))
          (st\<lparr>Symbols := (Symbols st)
               \<lparr>scopes := scopes (Symbols st) @ [\<lparr>scopeName = f, symbols = []\<rparr>],
                stack := length (scopes (Symbols st)) # stack (Symbols st)\<rparr>\<rparr>)) = Inr (tys, st2)"
    and decls: "sym_visitDeclarations ds st2 = Inr st3"
    and st': "st' =
           (if findInCurrentScope f (popScope (Symbols st3))
            then emit DeclaredIdent n (st3\<lparr>Symbols := popScope (Symbols st3)\<rparr>)
            else (putTypeDecor n (FunctionTy tys (declared_return bt))
                    (case bt of None \<Rightarrow> st3\<lparr>Symbols := popScope (Symbols st3)\<rparr>
                     | Some b \<Rightarrow> sym_visitBasic_type b (st3\<lparr>Symbols := popScope (Symbols st3)\<rparr>)))
                 \<lparr>Symbols := addFunction f (FunctionTy tys (declared_return bt))
                                 (popScope (Symbols st3))\<rparr>)"
    by (rule sym_visitFunction_cases)
  have "stack (Symbols st3) = length (scopes (Symbols st)) # stack (Symbols st)"
    using stack_sym_visitDeclarations [OF decls] stack_sym_visitParameters [OF params]
    by (simp add: Symbols_putScopeDecor)
  then have "stack (popScope (Symbols st3)) = stack (Symbols st)"
    by (simp add: popScope_def)
  then show ?thesis
    unfolding st' by (simp add: Symbols_emit addFunction_def stack_addSymbol)
qed

text \<open>The loop over the functions, and the program.\<close>

lemma sym_visitFunctions_step:
  assumes "sym_visitFunctions (fn # fs) st = Inr st'"
  obtains st1 where "sym_visitFunction fn st = Inr st1" and "sym_visitFunctions fs st1 = Inr st'"
  using assms by (auto split: sum.splits simp del: sym_visitFunction.simps)

lemma sym_visitFunctions_in_range:
  "list_all function_in_range fs \<Longrightarrow> \<exists>st'. sym_visitFunctions fs st = Inr st'"
proof (induction fs arbitrary: st)
  case Nil
  show ?case by simp
next
  case (Cons fn fs)
  from Cons.prems obtain st1 where fn: "sym_visitFunction fn st = Inr st1"
    using sym_visitFunction_in_range [of fn st] by auto
  from Cons.prems have "list_all function_in_range fs"
    by simp
  from Cons.IH [OF this, of st1] fn show ?case
    by (simp del: sym_visitFunction.simps)
qed

lemma stack_sym_visitFunctions:
  "sym_visitFunctions fs st = Inr st' \<Longrightarrow> stack (Symbols st') = stack (Symbols st)"
proof (induction fs arbitrary: st)
  case Nil
  then show ?case by simp
next
  case (Cons fn fs)
  from Cons.prems obtain st1 where
    fn: "sym_visitFunction fn st = Inr st1" and rest: "sym_visitFunctions fs st1 = Inr st'"
    by (rule sym_visitFunctions_step)
  from Cons.IH [OF rest] stack_sym_visitFunction [OF fn] show ?case
    by simp
qed

lemma sym_visitProgram_in_range:
  assumes "program_in_range p"
  shows "\<exists>st'. sym_visitProgram g p st = Inr st'"
proof (cases p)
  case (Program n fs)
  let ?st1 = "putScopeDecor n (length (scopes (Symbols st)))
                (st\<lparr>Symbols := (Symbols st)
                     \<lparr>scopes := scopes (Symbols st) @ [\<lparr>scopeName = g, symbols = []\<rparr>],
                      stack := length (scopes (Symbols st)) # stack (Symbols st)\<rparr>\<rparr>)"
  from assms Program obtain st2 where "sym_visitFunctions fs ?st1 = Inr st2"
    using sym_visitFunctions_in_range [of fs ?st1] by auto
  then show ?thesis
    unfolding Program by (simp add: pushNewScope_def Let_def)
qed

lemma stack_sym_visitProgram:
  assumes "sym_visitProgram g p st = Inr st'"
  shows "stack (Symbols st') = stack (Symbols st)"
proof (cases p)
  case (Program n fs)
  let ?st1 = "putScopeDecor n (length (scopes (Symbols st)))
                (st\<lparr>Symbols := (Symbols st)
                     \<lparr>scopes := scopes (Symbols st) @ [\<lparr>scopeName = g, symbols = []\<rparr>],
                      stack := length (scopes (Symbols st)) # stack (Symbols st)\<rparr>\<rparr>)"
  from assms [unfolded Program] obtain st2 where
    fs: "sym_visitFunctions fs ?st1 = Inr st2" and st': "st' = st2\<lparr>Symbols := popScope (Symbols st2)\<rparr>"
    by (cases "sym_visitFunctions fs ?st1") (auto simp add: pushNewScope_def Let_def)
  from stack_sym_visitFunctions [OF fs]
  have "stack (Symbols st2) = length (scopes (Symbols st)) # stack (Symbols st)"
    by (simp add: Symbols_putScopeDecor)
  then show ?thesis
    unfolding st' by (simp add: popScope_def)
qed


section \<open>Scopes in the type-check and code generation passes\<close>

lemma tc_visitFunction_table: "fst (tc_visitFunction fn (S, st)) = S"
  by (cases fn) (simp add: Let_def pop_of_push)

lemma fold_tc_visitFunction_table: "fst (fold tc_visitFunction fs (S, st)) = S"
proof (induction fs arbitrary: st)
  case Nil
  show ?case by simp
next
  case (Cons fn fs)
  obtain S' st' where step: "tc_visitFunction fn (S, st) = (S', st')"
    by (cases "tc_visitFunction fn (S, st)")
  have "S' = S"
    using tc_visitFunction_table [of fn S st] by (simp add: step)
  with step Cons.IH [of st'] show ?case
    by (simp del: tc_visitFunction.simps)
qed

lemma tc_visitProgram_table: "fst (tc_visitProgram p (S, st)) = S"
  by (cases p) (simp add: Let_def case_prod_beta fold_tc_visitFunction_table pop_of_push)

lemma cg_visitFunction_table: "snd (cg_visitFunction to_string reset D fn S) = S"
  by (cases fn) (simp add: Let_def case_prod_beta pop_of_push)

lemma cg_visitFunctions_table: "snd (cg_visitFunctions to_string reset D fs my_code S) = S"
proof (induction fs arbitrary: my_code)
  case Nil
  show ?case by simp
next
  case (Cons fn fs)
  obtain subr S' where step: "cg_visitFunction to_string reset D fn S = (subr, S')"
    by (cases "cg_visitFunction to_string reset D fn S")
  have "S' = S"
    using cg_visitFunction_table [of to_string reset D fn S] by (simp add: step)
  with step Cons.IH [of "my_code @ [subr]"] show ?case
    by (simp del: cg_visitFunction.simps)
qed

lemma cg_visitProgram_table: "snd (cg_visitProgram to_string reset D p S) = S"
  by (cases p) (simp add: Let_def case_prod_beta cg_visitFunctions_table pop_of_push)

section \<open>The function symbol and its scope\<close>



text \<open>
  \<^verbatim>\<open>func f(v: array[2147483648] of float)\<close>: the size does not fit, and the visit of the
  function ends in the exception of \<^verbatim>\<open>std::stoi\<close>.
\<close>

lemma sym_visitFunction_throws_example:
  "\<not> function_in_range ex_function_big
   \<and> sym_visitFunction ex_function_big ex_sym_state = Inl Out_of_range"
  by (simp add: ex_function_big_def ex_sym_state_def pushNewScope_def findInCurrentScope_def
        putScopeDecor_def stoi_def Let_def)

section \<open>Balance of the scope stack\<close>

text \<open>
  C9. A visit of a program node or of a function node that returns leaves the stack of
  scopes as it found it: the symbols pass pushes a new scope and pops it, the type-check
  and code generation passes push the scope the node is decorated with and pop it, and
  nothing in between changes the stack. The visits of the type-check and code generation
  passes always return; those of the symbols pass return when the sizes written in the
  program, or in the function, fit an \<^verbatim>\<open>int\<close>.
\<close>

theorem C9_scope_stack_balanced:
  "(program_in_range p \<longrightarrow> (\<exists>st'. sym_visitProgram g p st = Inr st'))
   \<and> (\<forall>st'. sym_visitProgram g p st = Inr st' \<longrightarrow> stack (Symbols st') = stack (Symbols st))
   \<and> (function_in_range fn \<longrightarrow> (\<exists>st'. sym_visitFunction fn st = Inr st'))
   \<and> (\<forall>st'. sym_visitFunction fn st = Inr st' \<longrightarrow> stack (Symbols st') = stack (Symbols st))
   \<and> stack (fst (tc_visitProgram p (S, tst))) = stack S
   \<and> stack (fst (tc_visitFunction fn (S, tst))) = stack S
   \<and> stack (snd (cg_visitProgram to_string reset D p S)) = stack S
   \<and> stack (snd (cg_visitFunction to_string reset D fn S)) = stack S"
proof (intro conjI impI allI)
  show "\<exists>st'. sym_visitProgram g p st = Inr st'" if "program_in_range p"
    using that by (rule sym_visitProgram_in_range)
  show "stack (Symbols st') = stack (Symbols st)" if "sym_visitProgram g p st = Inr st'" for st'
    using that by (rule stack_sym_visitProgram)
  show "\<exists>st'. sym_visitFunction fn st = Inr st'" if "function_in_range fn"
    using that by (rule sym_visitFunction_in_range)
  show "stack (Symbols st') = stack (Symbols st)" if "sym_visitFunction fn st = Inr st'" for st'
    using that by (rule stack_sym_visitFunction)
  show "stack (fst (tc_visitProgram p (S, tst))) = stack S"
    by (simp only: tc_visitProgram_table)
  show "stack (fst (tc_visitFunction fn (S, tst))) = stack S"
    by (simp only: tc_visitFunction_table)
  show "stack (snd (cg_visitProgram to_string reset D p S)) = stack S"
    by (simp only: cg_visitProgram_table)
  show "stack (snd (cg_visitFunction to_string reset D fn S)) = stack S"
    by (simp only: cg_visitFunction_table)
qed

text \<open>The three passes on the example program, from a stack of depth one and of depth two.\<close>

theorem C9_scope_stack_balanced_witness:
  "program_in_range ex_program
   \<and> function_in_range ex_function
   \<and> (\<exists>st'. sym_visitProgram ''$global$'' ex_program ex_sym_state = Inr st'
         \<and> stack (Symbols st') = [0])
   \<and> (\<exists>st'. sym_visitFunction ex_function ex_sym_state = Inr st' \<and> stack (Symbols st') = [0])
   \<and> stack (fst (tc_visitProgram ex_program (ex_table, ex_state VoidTy))) = [1, 0]
   \<and> stack (fst (tc_visitFunction ex_function (ex_table, ex_state VoidTy))) = [1, 0]
   \<and> stack (snd (cg_visitProgram (\<lambda>t. ''t'') ex_counters ex_decor ex_program ex_table)) = [1, 0]
   \<and> stack (snd (cg_visitFunction (\<lambda>t. ''t'') ex_counters ex_decor ex_function ex_table)) = [1, 0]"
proof -
  have range: "program_in_range ex_program" "function_in_range ex_function"
    by (simp_all add: ex_program_def ex_function_def)
  have entry: "stack (Symbols ex_sym_state) = [0]" "stack ex_table = [1, 0]"
    by (simp_all add: ex_sym_state_def ex_table_def)
  note inst = C9_scope_stack_balanced [where g = "''$global$''" and p = ex_program
      and st = ex_sym_state and fn = ex_function and S = ex_table and tst = "ex_state VoidTy"
      and to_string = "\<lambda>t. ''t''" and reset = ex_counters and D = ex_decor]
  from inst range obtain st1 st2 where
    "sym_visitProgram ''$global$'' ex_program ex_sym_state = Inr st1"
    "sym_visitFunction ex_function ex_sym_state = Inr st2"
    by blast
  with inst range entry show ?thesis
    by (simp del: sym_visitProgram.simps sym_visitFunction.simps tc_visitProgram.simps
          tc_visitFunction.simps cg_visitProgram.simps cg_visitFunction.simps)
qed

end
